theory Spec2Isabelle
  imports Complex_Main "HOL-Library.Multiset"
begin

section \<open>COCO dataset extractor: data model\<close>

text \<open>
  A shallow embedding of \<^verbatim>\<open>coco_to_yolo_extractor.py\<close> (class \<^verbatim>\<open>COCOConverter\<close>).

  The parsed annotation JSON is a record of three lists. A key that the source reads
  with \<^verbatim>\<open>coco_data.get(key, [])\<close> and that is absent from the file is the empty list
  here. Every entry carries the keys the source reads from it (\<^verbatim>\<open>id\<close>, \<^verbatim>\<open>name\<close>,
  \<^verbatim>\<open>file_name\<close>, \<^verbatim>\<open>width\<close>, \<^verbatim>\<open>height\<close>, \<^verbatim>\<open>image_id\<close>,
  \<^verbatim>\<open>category_id\<close>, \<^verbatim>\<open>bbox\<close>); the dictionary keys are prefixed by the
  kind of entry, since \<^verbatim>\<open>id\<close> occurs in two of them.

  The entries of a bounding box are the numbers \<^verbatim>\<open>json.load\<close> returns: integers of
  any size or floats. The width and the height of an image are integers, as in the files
  of the COCO dataset.
\<close>

datatype py_error =
  ZeroDivisionError | IndexError | ValueError | TypeError | UnboundLocalError | OverflowError

section \<open>Python numbers\<close>

text \<open>
  A Python float is an IEEE 754 double: a finite value, an infinity with its sign
  (\<open>True\<close> for the positive one) or a NaN. A finite float is kept as the real number it
  stands for, so the two zeros are one value here.
\<close>

datatype py_float = Finite real | Infinity bool | NaN

datatype py_num = PyInt int | PyFloat py_float

text \<open>
  The exponent \<open>e\<close> of a positive real \<open>x\<close>, with \<open>2 ^ e \<le> x < 2 ^ (e + 1)\<close>.
\<close>

function float_exponent :: "real \<Rightarrow> int" where
  "float_exponent x =
     (if x < 1 then (if 0 < x then float_exponent (2 * x) - 1 else 0)
      else if 2 \<le> x then float_exponent (x / 2) + 1
      else 0)"
  by pat_completeness auto
termination
proof (relation "measure (\<lambda>x. nat \<bar>\<lfloor>log 2 x\<rfloor>\<bar>)")
  show "wf (measure (\<lambda>x. nat \<bar>\<lfloor>log 2 x\<rfloor>\<bar>))" by simp
next
  fix x :: real
  assume "x < 1" and "0 < x"
  then have "log 2 (2 * x) = log 2 x + 1" by (simp add: log_mult)
  then have f: "\<lfloor>log 2 (2 * x)\<rfloor> = \<lfloor>log 2 x\<rfloor> + 1" by simp
  from \<open>x < 1\<close> \<open>0 < x\<close> have "log 2 x < 0" by simp
  then have "\<lfloor>log 2 x\<rfloor> \<le> - 1" by (simp add: floor_le_iff)
  with f have "nat \<bar>\<lfloor>log 2 (2 * x)\<rfloor>\<bar> < nat \<bar>\<lfloor>log 2 x\<rfloor>\<bar>" by linarith
  then show "(2 * x, x) \<in> measure (\<lambda>x. nat \<bar>\<lfloor>log 2 x\<rfloor>\<bar>)" by simp
next
  fix x :: real
  assume "\<not> x < 1" and "2 \<le> x"
  then have "log 2 (x / 2) = log 2 x - 1" by (simp add: log_divide)
  then have f: "\<lfloor>log 2 (x / 2)\<rfloor> = \<lfloor>log 2 x\<rfloor> - 1" by simp
  from \<open>2 \<le> x\<close> have "1 \<le> log 2 x" by (simp add: le_log_iff)
  then have "1 \<le> \<lfloor>log 2 x\<rfloor>" by (simp add: le_floor_iff)
  with f have "nat \<bar>\<lfloor>log 2 (x / 2)\<rfloor>\<bar> < nat \<bar>\<lfloor>log 2 x\<rfloor>\<bar>" by linarith
  then show "(x / 2, x) \<in> measure (\<lambda>x. nat \<bar>\<lfloor>log 2 x\<rfloor>\<bar>)" by simp
qed

declare float_exponent.simps [simp del]

text \<open>The integer nearest to \<open>x\<close>; of two nearest integers, the even one.\<close>

definition round_half_even :: "real \<Rightarrow> int" where
  "round_half_even x =
     (let f = \<lfloor>x\<rfloor> in
      if x - real_of_int f < 1 / 2 then f
      else if 1 / 2 < x - real_of_int f then f + 1
      else if even f then f else f + 1)"

definition pow2 :: "int \<Rightarrow> real" where
  "pow2 e = (if 0 \<le> e then 2 ^ nat e else 1 / 2 ^ nat (- e))"

text \<open>
  Rounding to the nearest double, ties to even, with no bound on the exponent from
  above: a significand of 53 bits, the least exponent \<open>- 1022\<close> (below it the doubles
  are equally spaced, \<open>2 ^ - 1074\<close> apart).
\<close>

definition float_round :: "real \<Rightarrow> real" where
  "float_round x =
     (if x = 0 then 0
      else let e = max (float_exponent \<bar>x\<bar>) (- 1022);
               ulp = pow2 (e - 52)
           in real_of_int (round_half_even (x / ulp)) * ulp)"

text \<open>
  The reals that round to \<open>2 ^ 1024\<close> or beyond, which is no double: the largest
  double is \<open>2 ^ 1024 - 2 ^ 971\<close>, and the real halfway from it to \<open>2 ^ 1024\<close> is a
  tie that goes to the even side, \<open>2 ^ 1024\<close>.
\<close>

definition float_overflows :: "real \<Rightarrow> bool" where
  "float_overflows x = (2 ^ 1024 - 2 ^ 970 \<le> \<bar>x\<bar>)"

text \<open>The result of a float operation whose exact result is \<open>x\<close>.\<close>

definition to_float :: "real \<Rightarrow> py_float" where
  "to_float x = (if float_overflows x then Infinity (0 < x) else Finite (float_round x))"

text \<open>\<^verbatim>\<open>a + b\<close>, \<^verbatim>\<open>a * b\<close> and \<^verbatim>\<open>a > b\<close> on floats.\<close>

fun float_add :: "py_float \<Rightarrow> py_float \<Rightarrow> py_float" where
  "float_add (Finite x) (Finite y) = to_float (x + y)"
| "float_add (Finite x) (Infinity t) = Infinity t"
| "float_add (Infinity s) (Finite y) = Infinity s"
| "float_add (Infinity s) (Infinity t) = (if s = t then Infinity s else NaN)"
| "float_add NaN b = NaN"
| "float_add a NaN = NaN"

fun float_mul :: "py_float \<Rightarrow> py_float \<Rightarrow> py_float" where
  "float_mul (Finite x) (Finite y) = to_float (x * y)"
| "float_mul (Finite x) (Infinity t) = (if x = 0 then NaN else Infinity ((0 < x) = t))"
| "float_mul (Infinity s) (Finite y) = (if y = 0 then NaN else Infinity (s = (0 < y)))"
| "float_mul (Infinity s) (Infinity t) = Infinity (s = t)"
| "float_mul NaN b = NaN"
| "float_mul a NaN = NaN"

fun float_gt :: "py_float \<Rightarrow> py_float \<Rightarrow> bool" where
  "float_gt (Finite x) (Finite y) = (y < x)"
| "float_gt (Finite x) (Infinity t) = (\<not> t)"
| "float_gt (Infinity s) (Finite y) = s"
| "float_gt (Infinity s) (Infinity t) = (s \<and> \<not> t)"
| "float_gt NaN b = False"
| "float_gt a NaN = False"

text \<open>
  \<^verbatim>\<open>a / b\<close> on floats: a zero divisor raises ZeroDivisionError, whatever the dividend.
\<close>

fun float_truediv :: "py_float \<Rightarrow> py_float \<Rightarrow> py_error + py_float" where
  "float_truediv a (Finite y) =
     (if y = 0 then Inl ZeroDivisionError
      else (case a of
              Finite x \<Rightarrow> Inr (to_float (x / y))
            | Infinity s \<Rightarrow> Inr (Infinity (s = (0 < y)))
            | NaN \<Rightarrow> Inr NaN))"
| "float_truediv a (Infinity t) =
     (case a of Finite x \<Rightarrow> Inr (Finite 0) | Infinity s \<Rightarrow> Inr NaN | NaN \<Rightarrow> Inr NaN)"
| "float_truediv a NaN = Inr NaN"

text \<open>
  The conversion of an operand to float in an operation with a float: an integer that
  rounds to no double raises OverflowError.
\<close>

definition as_float :: "py_num \<Rightarrow> py_error + py_float" where
  "as_float a =
     (case a of
        PyInt n \<Rightarrow>
          if float_overflows (real_of_int n) then Inl OverflowError
          else Inr (Finite (float_round (real_of_int n)))
      | PyFloat f \<Rightarrow> Inr f)"

text \<open>
  \<^verbatim>\<open>a + b\<close> and \<^verbatim>\<open>a * b\<close> on numbers: exact on two integers; otherwise both
  operands are converted to float, the left one first.
\<close>

definition py_add :: "py_num \<Rightarrow> py_num \<Rightarrow> py_error + py_num" where
  "py_add a b =
     (case (a, b) of
        (PyInt m, PyInt n) \<Rightarrow> Inr (PyInt (m + n))
      | _ \<Rightarrow>
          (case as_float a of
             Inl err \<Rightarrow> Inl err
           | Inr x \<Rightarrow>
               (case as_float b of
                  Inl err \<Rightarrow> Inl err
                | Inr y \<Rightarrow> Inr (PyFloat (float_add x y)))))"

definition py_mul :: "py_num \<Rightarrow> py_num \<Rightarrow> py_error + py_num" where
  "py_mul a b =
     (case (a, b) of
        (PyInt m, PyInt n) \<Rightarrow> Inr (PyInt (m * n))
      | _ \<Rightarrow>
          (case as_float a of
             Inl err \<Rightarrow> Inl err
           | Inr x \<Rightarrow>
               (case as_float b of
                  Inl err \<Rightarrow> Inl err
                | Inr y \<Rightarrow> Inr (PyFloat (float_mul x y)))))"

text \<open>
  \<^verbatim>\<open>a / b\<close> on numbers, always a float. The quotient of two integers is rounded
  once, from its exact value, and raises OverflowError when it rounds to no double; with
  a float among the operands, both are converted before the divisor is tested.
\<close>

definition py_truediv :: "py_num \<Rightarrow> py_num \<Rightarrow> py_error + py_float" where
  "py_truediv a b =
     (case (a, b) of
        (PyInt m, PyInt n) \<Rightarrow>
          if n = 0 then Inl ZeroDivisionError
          else if float_overflows (real_of_int m / real_of_int n) then Inl OverflowError
          else Inr (Finite (float_round (real_of_int m / real_of_int n)))
      | _ \<Rightarrow>
          (case as_float a of
             Inl err \<Rightarrow> Inl err
           | Inr x \<Rightarrow>
               (case as_float b of
                  Inl err \<Rightarrow> Inl err
                | Inr y \<Rightarrow> float_truediv x y)))"

text \<open>\<^verbatim>\<open>a > b\<close> on numbers: the values are compared exactly, without conversion.\<close>

definition py_gt :: "py_num \<Rightarrow> py_num \<Rightarrow> bool" where
  "py_gt a b =
     (case (a, b) of
        (PyInt m, PyInt n) \<Rightarrow> n < m
      | (PyInt m, PyFloat g) \<Rightarrow> float_gt (Finite (real_of_int m)) g
      | (PyFloat f, PyInt n) \<Rightarrow> float_gt f (Finite (real_of_int n))
      | (PyFloat f, PyFloat g) \<Rightarrow> float_gt f g)"

section \<open>The data of a run\<close>

record category =
  cat_id :: int
  cat_name :: string
  cat_supercategory :: string

record image_info =
  img_id :: int
  img_file_name :: string
  img_width :: int
  img_height :: int

record annotation =
  ann_image_id :: int
  ann_category_id :: int
  ann_bbox :: "py_num list"

record coco_data =
  images :: "image_info list"
  categories :: "category list"
  annotations :: "annotation list"

text \<open>The attributes that \<^verbatim>\<open>parse_arguments\<close> stores on \<^verbatim>\<open>self\<close>.\<close>

record converter =
  coco_annotation_train :: string
  coco_image_dir_train :: string
  coco_annotation_val :: string
  coco_image_dir_val :: string
  coco_annotation_test :: string
  coco_image_dir_test :: string
  output_dir :: string
  target_classes :: "string list"
  background_percentage :: py_float
  test_num_images :: "int option"
  test_only_target_classes :: bool
  create_single_class :: bool
  single_class_name :: string
  convert_to_yolo :: bool

text \<open>
  One line \<^verbatim>\<open>"{category_id} {x_center} {y_center} {width} {height}\n"\<close> of a YOLO
  label file, kept as its five values (the text of a number is the shortest decimal
  that reads back as the same float; it is not modelled). A label file holds either such lines (the empty string is the empty list
  of lines) or the JSON dump \<^verbatim>\<open>{'annotations': [...]}\<close>.
\<close>

record yolo_line =
  yolo_class :: nat
  yolo_x_center :: py_float
  yolo_y_center :: py_float
  yolo_width :: py_float
  yolo_height :: py_float

datatype label_content = YoloText "yolo_line list" | JsonAnnotations "annotation list"

text \<open>What the program prints, one constructor per \<^verbatim>\<open>print\<close> call of the source.\<close>

datatype message =
    Processing string
  | TestAnnotationNotFound string
  | TestImagesStored string nat
  | NumberOfImages string nat
  | ConvertingTarget string
  | ConvertingAll string
  | ConvertingBackground string py_float
  | AnnotationsConverted string
  | ImagesAndLabelsStored string nat
  | AnnotationFileNotFound string
  | ImageInfoNotFound int

text \<open>
  The effects of a run, in the order they happen: \<^verbatim>\<open>shutil.copy(src, dst)\<close> calls,
  label files written (path, content), split list files written (path, content), and
  the printed messages. Copying and writing are taken to succeed.
\<close>

record world =
  copied :: "(string \<times> string) list"
  label_files :: "(string \<times> label_content) list"
  list_files :: "(string \<times> string) list"
  stdout :: "message list"

text \<open>
  What a run reads from outside: the annotation files (\<open>None\<close> when
  \<^verbatim>\<open>os.path.exists\<close> is false, else the value of \<^verbatim>\<open>json.load\<close>),
  \<^verbatim>\<open>os.listdir\<close>, the choice \<^verbatim>\<open>random.sample\<close> makes from a population of
  sufficient size, whether \<^verbatim>\<open>random.sample\<close> takes a set as population (it does up
  to Python 3.10 and raises TypeError from Python 3.11 on), and the order in which
  Python iterates over a set (which the language leaves open; for a set of strings it
  changes from one process to the next with the seed of the string hash).
\<close>

record env =
  annotation_file :: "string \<Rightarrow> coco_data option"
  listdir :: "string \<Rightarrow> string list"
  sample :: "string list \<Rightarrow> nat \<Rightarrow> string list"
  sample_accepts_set :: bool
  iter_ids :: "int set \<Rightarrow> int list"
  iter_names :: "string set \<Rightarrow> string list"

section \<open>Library functions of Python used by the source\<close>

text \<open>\<^verbatim>\<open>os.path.join(a, *p)\<close> of \<^verbatim>\<open>posixpath\<close>.\<close>

fun path_join :: "string \<Rightarrow> string list \<Rightarrow> string" where
  "path_join path [] = path"
| "path_join path (b # bs) =
     path_join
       (if (case b of [] \<Rightarrow> False | c # _ \<Rightarrow> c = CHR ''/'') then b
        else if path = [] \<or> last path = CHR ''/'' then path @ b
        else path @ ''/'' @ b) bs"

text \<open>
  \<^verbatim>\<open>os.path.splitext(p)[0]\<close>: the path without its extension. The extension starts at
  the last dot of the last component, unless only dots precede that dot there.
\<close>

definition splitext_root :: "string \<Rightarrow> string" where
  "splitext_root p =
     (let base = rev (takeWhile (\<lambda>c. c \<noteq> CHR ''/'') (rev p));
          name = dropWhile (\<lambda>c. c = CHR ''.'') base
      in if CHR ''.'' \<in> set name
         then rev (tl (dropWhile (\<lambda>c. c \<noteq> CHR ''.'') (rev p)))
         else p)"

text \<open>\<^verbatim>\<open>sep.join(xs)\<close>.\<close>

fun str_join :: "string \<Rightarrow> string list \<Rightarrow> string" where
  "str_join sep [] = []"
| "str_join sep [x] = x"
| "str_join sep (x # y # ys) = x @ sep @ str_join sep (y # ys)"

text \<open>\<^verbatim>\<open>xs.index(x)\<close>: the first position of \<open>x\<close>; \<open>None\<close> where Python raises ValueError.\<close>

fun list_index :: "'a list \<Rightarrow> 'a \<Rightarrow> nat option" where
  "list_index [] x = None"
| "list_index (y # ys) x = (if y = x then Some 0 else map_option Suc (list_index ys x))"

text \<open>
  \<^verbatim>\<open>random.sample(population, k)\<close> on a list: ValueError when the sample is larger
  than the population or negative, else the environment's choice.
\<close>

definition random_sample :: "env \<Rightarrow> string list \<Rightarrow> int \<Rightarrow> py_error + string list" where
  "random_sample e population k =
     (if k < 0 \<or> int (length population) < k then Inl ValueError
      else Inr (sample e population (nat k)))"

text \<open>
  \<^verbatim>\<open>random.sample(population, k)\<close> on a set: TypeError where sets are refused, else
  the sample from the tuple of the set's elements in iteration order.
\<close>

definition random_sample_set :: "env \<Rightarrow> string set \<Rightarrow> int \<Rightarrow> py_error + string list" where
  "random_sample_set e population k =
     (if \<not> sample_accepts_set e then Inl TypeError
      else random_sample e (iter_names e population) k)"

section \<open>Catalog lookups\<close>

text \<open>
  \<^verbatim>\<open>next((cat['name'] for cat in coco_data.get('categories', []) if cat['id'] == category_id), None)\<close>
\<close>

definition category_name_of :: "coco_data \<Rightarrow> int \<Rightarrow> string option" where
  "category_name_of d category_id =
     map_option cat_name (find (\<lambda>cat. cat_id cat = category_id) (categories d))"

text \<open>\<^verbatim>\<open>category_name in self.target_classes\<close>, where the name may be \<^verbatim>\<open>None\<close>.\<close>

definition py_in :: "string option \<Rightarrow> string list \<Rightarrow> bool" where
  "py_in category_name classes =
     (case category_name of None \<Rightarrow> False | Some n \<Rightarrow> n \<in> set classes)"

text \<open>
  \<^verbatim>\<open>next((img for img in coco_data.get('images', []) if img['id'] == img_id), None)\<close>
\<close>

definition image_by_id :: "coco_data \<Rightarrow> int \<Rightarrow> image_info option" where
  "image_by_id d i = find (\<lambda>img. img_id img = i) (images d)"

section \<open>The annotation transcoder\<close>

text \<open>
  Lines 167 to 177 of \<^verbatim>\<open>coco_to_yolo_format\<close>: the four values of a line, from the
  box of an annotation and the image's record, in the order the source computes them.
  Reading \<^verbatim>\<open>bbox[2]\<close> or \<^verbatim>\<open>bbox[3]\<close> raises IndexError on a shorter list; the
  additions and divisions raise what \<open>py_add\<close> and \<open>py_truediv\<close> raise.
\<close>

definition yolo_box ::
  "image_info \<Rightarrow> py_num list \<Rightarrow> py_error + py_float \<times> py_float \<times> py_float \<times> py_float" where
  "yolo_box img_info bbox =
     (if length bbox < 3 then Inl IndexError
      else case py_truediv (bbox ! 2) (PyInt 2) of Inl err \<Rightarrow> Inl err | Inr half_width \<Rightarrow>
      case py_add (bbox ! 0) (PyFloat half_width) of Inl err \<Rightarrow> Inl err | Inr x_center \<Rightarrow>
      if length bbox < 4 then Inl IndexError
      else case py_truediv (bbox ! 3) (PyInt 2) of Inl err \<Rightarrow> Inl err | Inr half_height \<Rightarrow>
      case py_add (bbox ! 1) (PyFloat half_height) of Inl err \<Rightarrow> Inl err | Inr y_center \<Rightarrow>
      case py_truediv x_center (PyInt (img_width img_info)) of
        Inl err \<Rightarrow> Inl err | Inr x_center' \<Rightarrow>
      case py_truediv y_center (PyInt (img_height img_info)) of
        Inl err \<Rightarrow> Inl err | Inr y_center' \<Rightarrow>
      case py_truediv (bbox ! 2) (PyInt (img_width img_info)) of
        Inl err \<Rightarrow> Inl err | Inr width \<Rightarrow>
      case py_truediv (bbox ! 3) (PyInt (img_height img_info)) of
        Inl err \<Rightarrow> Inl err | Inr height \<Rightarrow>
      Inr (x_center', y_center', width, height))"

text \<open>
  \<^verbatim>\<open>coco_to_yolo_format\<close>: the loop over the annotations, with \<^verbatim>\<open>label_content\<close> as
  accumulator. An exception ends the call.
\<close>

fun coco_to_yolo_loop ::
  "converter \<Rightarrow> image_info \<Rightarrow> coco_data \<Rightarrow> annotation list \<Rightarrow> yolo_line list
    \<Rightarrow> py_error + yolo_line list" where
  "coco_to_yolo_loop s img_info d [] label_content = Inr label_content"
| "coco_to_yolo_loop s img_info d (ann # anns) label_content =
     (let category_name = category_name_of d (ann_category_id ann) in
      if py_in category_name (target_classes s) then
        (case (if \<not> create_single_class s
               then Option.bind category_name (list_index (target_classes s))
               else Some 0) of
           None \<Rightarrow> Inl ValueError
         | Some category_id \<Rightarrow>
             (case yolo_box img_info (ann_bbox ann) of
                Inl err \<Rightarrow> Inl err
              | Inr (x_center, y_center, width, height) \<Rightarrow>
                  coco_to_yolo_loop s img_info d anns
                    (label_content @
                     [\<lparr>yolo_class = category_id,
                       yolo_x_center = x_center,
                       yolo_y_center = y_center,
                       yolo_width = width,
                       yolo_height = height\<rparr>])))
      else coco_to_yolo_loop s img_info d anns label_content)"

definition coco_to_yolo_format ::
  "converter \<Rightarrow> image_info \<Rightarrow> annotation list \<Rightarrow> coco_data \<Rightarrow> py_error + yolo_line list" where
  "coco_to_yolo_format s img_info anns d = coco_to_yolo_loop s img_info d anns []"


section \<open>The image selector\<close>

text \<open>
  \<^verbatim>\<open>extract_images_id\<close>: the loop over the annotations, with the set
  \<^verbatim>\<open>unique_images\<close> as accumulator. The scan for images without target classes
  leaves the loop (\<^verbatim>\<open>break\<close>) once the set is larger than
  \<^verbatim>\<open>num_img_with_target_classes * self.background_percentage\<close>, a float product; with
  the parameter's default \<^verbatim>\<open>None\<close> that product raises TypeError.
\<close>

text \<open>
  The test \<^verbatim>\<open>len(unique_images) > num_img_with_target_classes * self.background_percentage\<close>
  of lines 203 and 233, for a set of \<open>k\<close> elements.
\<close>

definition exceeds_background ::
  "converter \<Rightarrow> nat \<Rightarrow> int option \<Rightarrow> py_error + bool" where
  "exceeds_background s k num_img_with_target_classes =
     (case num_img_with_target_classes of
        None \<Rightarrow> Inl TypeError
      | Some n \<Rightarrow>
          (case py_mul (PyInt n) (PyFloat (background_percentage s)) of
             Inl err \<Rightarrow> Inl err
           | Inr product \<Rightarrow> Inr (py_gt (PyInt (int k)) product)))"

fun extract_images_id_loop ::
  "converter \<Rightarrow> coco_data \<Rightarrow> bool \<Rightarrow> int option \<Rightarrow> annotation list \<Rightarrow> int set
    \<Rightarrow> py_error + int set" where
  "extract_images_id_loop s d extract_target_images num [] unique_images = Inr unique_images"
| "extract_images_id_loop s d extract_target_images num (ann # anns) unique_images =
     (let category_name = category_name_of d (ann_category_id ann) in
      if py_in category_name (target_classes s) = extract_target_images then
        (let unique_images' = insert (ann_image_id ann) unique_images in
         if \<not> extract_target_images then
           (case exceeds_background s (card unique_images') num of
              Inl err \<Rightarrow> Inl err
            | Inr stop \<Rightarrow>
                if stop then Inr unique_images'
                else extract_images_id_loop s d extract_target_images num anns unique_images')
         else extract_images_id_loop s d extract_target_images num anns unique_images')
      else extract_images_id_loop s d extract_target_images num anns unique_images)"

definition extract_images_id ::
  "converter \<Rightarrow> coco_data \<Rightarrow> bool \<Rightarrow> int option \<Rightarrow> bool \<Rightarrow> py_error + int set" where
  "extract_images_id s d extract_target_images num_img_with_target_classes extract_all =
     (if extract_all then Inr (set (map img_id (images d)))
      else extract_images_id_loop s d extract_target_images num_img_with_target_classes
             (annotations d) {})"

text \<open>
  \<^verbatim>\<open>extract_images_filename\<close>: the same scan over file names. An annotation whose image
  has no record prints a message and adds nothing; the size test of the scan for
  background images follows either way. The printed messages are returned with the
  result.
\<close>

fun extract_images_filename_loop ::
  "converter \<Rightarrow> coco_data \<Rightarrow> bool \<Rightarrow> int option \<Rightarrow> annotation list \<Rightarrow> string set
    \<Rightarrow> message list \<Rightarrow> (py_error + string set) \<times> message list" where
  "extract_images_filename_loop s d extract_target_images num [] unique_images out =
     (Inr unique_images, out)"
| "extract_images_filename_loop s d extract_target_images num (ann # anns) unique_images out =
     (let category_name = category_name_of d (ann_category_id ann) in
      if py_in category_name (target_classes s) = extract_target_images then
        (let image_id = ann_image_id ann;
             result_dict = find (\<lambda>img_data. img_id img_data = image_id) (images d);
             unique_images' =
               (case result_dict of
                  Some r \<Rightarrow> insert (img_file_name r) unique_images
                | None \<Rightarrow> unique_images);
             out' =
               (case result_dict of
                  Some r \<Rightarrow> out
                | None \<Rightarrow> out @ [ImageInfoNotFound image_id])
         in
         if \<not> extract_target_images then
           (case exceeds_background s (card unique_images') num of
              Inl err \<Rightarrow> (Inl err, out')
            | Inr stop \<Rightarrow>
                if stop then (Inr unique_images', out')
                else extract_images_filename_loop s d extract_target_images num anns
                       unique_images' out')
         else extract_images_filename_loop s d extract_target_images num anns
                unique_images' out')
      else extract_images_filename_loop s d extract_target_images num anns unique_images out)"

definition extract_images_filename ::
  "converter \<Rightarrow> coco_data \<Rightarrow> bool \<Rightarrow> int option \<Rightarrow> bool
    \<Rightarrow> (py_error + string set) \<times> message list" where
  "extract_images_filename s d extract_target_images num_img_with_target_classes extract_all =
     (if extract_all then (Inr (set (map img_file_name (images d))), [])
      else extract_images_filename_loop s d extract_target_images
             num_img_with_target_classes (annotations d) {} [])"

section \<open>The class resolver\<close>

text \<open>
  \<^verbatim>\<open>create_new_class\<close>: appends the category of the single class unless one of that
  name exists. \<^verbatim>\<open>max\<close> of an empty sequence raises ValueError.
\<close>

definition create_new_class :: "converter \<Rightarrow> coco_data \<Rightarrow> py_error + coco_data" where
  "create_new_class s d =
     (case map_option cat_id
             (find (\<lambda>cat. cat_name cat = single_class_name s) (categories d)) of
        Some new_category_id \<Rightarrow> Inr d
      | None \<Rightarrow>
          (case map cat_id (categories d) of
             [] \<Rightarrow> Inl ValueError
           | i # ids \<Rightarrow>
               Inr (d\<lparr>categories := categories d @
                     [\<lparr>cat_id = fold max ids i + 1,
                       cat_name = single_class_name s,
                       cat_supercategory = single_class_name s\<rparr>]\<rparr>)))"


section \<open>The split materializer\<close>

definition py_print :: "world \<Rightarrow> message \<Rightarrow> world" where
  "py_print w m = w\<lparr>stdout := stdout w @ [m]\<rparr>"

text \<open>
  The body of the loop of \<^verbatim>\<open>convert_annotations\<close> for an image whose record was
  found (lines 264 to 289): copy the image, record its path, compute and write the
  label file. The lists \<^verbatim>\<open>images_record\<close> and \<^verbatim>\<open>labels_record\<close>, which the source
  extends in place, are passed and returned with the effects.
\<close>

definition convert_image ::
  "converter \<Rightarrow> int \<Rightarrow> image_info \<Rightarrow> coco_data \<Rightarrow> string \<Rightarrow> string \<Rightarrow> bool
    \<Rightarrow> string list \<times> string list \<times> world
    \<Rightarrow> py_error option \<times> string list \<times> string list \<times> world" where
  "convert_image s image_id img_info d coco_image_dir dataset_type is_background st =
     (case st of (images_record, labels_record, w) \<Rightarrow>
        let img_path = path_join coco_image_dir [img_file_name img_info];
            w1 = w\<lparr>copied := copied w @
                   [(img_path, path_join (output_dir s) [dataset_type, ''images''])]\<rparr>;
            images_record' = images_record @
                   [path_join dataset_type [''images'', img_file_name img_info]];
            anns = filter (\<lambda>ann. ann_image_id ann = image_id) (annotations d);
            label =
              (if is_background then Inr (YoloText [])
               else if convert_to_yolo s
               then map_sum id YoloText (coco_to_yolo_format s img_info anns d)
               else Inr (JsonAnnotations anns))
        in
        (case label of
           Inl err \<Rightarrow> (Some err, images_record', labels_record, w1)
         | Inr label_content \<Rightarrow>
             let label_filename = splitext_root (img_file_name img_info) @
                   (if convert_to_yolo s then ''.txt'' else ''.json'');
                 label_filepath = path_join (output_dir s)
                   [dataset_type,
                    if convert_to_yolo s then ''labels'' else ''annotations'',
                    label_filename];
                 w2 = w1\<lparr>label_files := label_files w1 @ [(label_filepath, label_content)]\<rparr>
             in (None, images_record', labels_record @ [label_filepath], w2)))"

text \<open>
  \<^verbatim>\<open>convert_annotations\<close>: the loop over \<^verbatim>\<open>unique_images\<close>, given here as the list
  of its elements in the order the loop visits them. An identifier without an image
  record is passed over. An exception of the transcoder ends the loop; what was copied
  and written before stays.
\<close>

fun convert_annotations ::
  "converter \<Rightarrow> int list \<Rightarrow> coco_data \<Rightarrow> string \<Rightarrow> string \<Rightarrow> bool
    \<Rightarrow> string list \<times> string list \<times> world
    \<Rightarrow> py_error option \<times> string list \<times> string list \<times> world" where
  "convert_annotations s [] d coco_image_dir dataset_type is_background st = (None, st)"
| "convert_annotations s (image_id # rest) d coco_image_dir dataset_type is_background st =
     (case image_by_id d image_id of
        None \<Rightarrow> convert_annotations s rest d coco_image_dir dataset_type is_background st
      | Some img_info \<Rightarrow>
          (case convert_image s image_id img_info d coco_image_dir dataset_type
                  is_background st of
             (Some err, st') \<Rightarrow> (Some err, st')
           | (None, st') \<Rightarrow>
               convert_annotations s rest d coco_image_dir dataset_type is_background st'))"

text \<open>
  Lines 101 to 115 of \<^verbatim>\<open>process_dataset\<close>: the set of images with target classes and
  the set of images without them.
\<close>

definition select_images :: "converter \<Rightarrow> coco_data \<Rightarrow> py_error + int set \<times> int set" where
  "select_images s d =
     (if target_classes s \<noteq> [] then
        (case extract_images_id s d True None False of
           Inl err \<Rightarrow> Inl err
         | Inr unique_images_with_target_classes \<Rightarrow>
             if float_gt (background_percentage s) (Finite 0) then
               (case extract_images_id s d False
                       (Some (int (card unique_images_with_target_classes))) False of
                  Inl err \<Rightarrow> Inl err
                | Inr unique_images_without_target_classes \<Rightarrow>
                    Inr (unique_images_with_target_classes,
                         unique_images_without_target_classes))
             else Inr (unique_images_with_target_classes, {}))
      else
        (case extract_images_id s d True None True of
           Inl err \<Rightarrow> Inl err
         | Inr unique_images_with_target_classes \<Rightarrow>
             Inr (unique_images_with_target_classes, {})))"

text \<open>
  The branch of \<^verbatim>\<open>process_dataset\<close> for a split whose annotation file exists
  (lines 93 to 147).
\<close>

definition process_annotated_split ::
  "converter \<Rightarrow> env \<Rightarrow> string \<Rightarrow> coco_data \<Rightarrow> string \<Rightarrow> string option \<Rightarrow> world
    \<Rightarrow> py_error option \<times> world" where
  "process_annotated_split s e dataset_type loaded coco_image_dir single_class_name_arg w =
     (let w1 = py_print w (NumberOfImages dataset_type (length (images loaded))) in
      case (if (case single_class_name_arg of None \<Rightarrow> False | Some n \<Rightarrow> n \<noteq> [])
            then create_new_class s loaded else Inr loaded) of
        Inl err \<Rightarrow> (Some err, w1)
      | Inr d \<Rightarrow>
          (case select_images s d of
             Inl err \<Rightarrow> (Some err, w1)
           | Inr (unique_images_with_target_classes, unique_images_without_target_classes) \<Rightarrow>
               let w2 = py_print w1
                     (if target_classes s \<noteq> [] then ConvertingTarget dataset_type
                      else ConvertingAll dataset_type)
               in
               (case convert_annotations s (iter_ids e unique_images_with_target_classes) d
                       coco_image_dir dataset_type False ([], [], w2) of
                  (Some err, images_record, labels_record, w3) \<Rightarrow> (Some err, w3)
                | (None, images_record, labels_record, w3) \<Rightarrow>
                    (case (if unique_images_without_target_classes \<noteq> {} then
                             convert_annotations s
                               (iter_ids e unique_images_without_target_classes) d
                               coco_image_dir dataset_type True
                               (images_record, labels_record,
                                py_print w3 (ConvertingBackground dataset_type
                                               (background_percentage s)))
                           else (None, images_record, labels_record, w3)) of
                       (Some err, images_record', labels_record', w4) \<Rightarrow> (Some err, w4)
                     | (None, images_record', labels_record', w4) \<Rightarrow>
                         let w5 = py_print w4 (AnnotationsConverted dataset_type);
                             w6 = w5\<lparr>list_files := list_files w5 @
                                    [(path_join (output_dir s) [dataset_type @ ''.txt''],
                                      str_join [CHR 0x0A] images_record')]\<rparr>
                         in (None, py_print w6
                               (ImagesAndLabelsStored dataset_type (length images_record')))))))"

text \<open>
  \<^verbatim>\<open>X if not self.test_num_images else random.sample(X, self.test_num_images)\<close> of
  line 74, for a list \<open>X\<close> (\<^verbatim>\<open>None\<close> and \<open>0\<close> are false).
\<close>

definition sample_if_requested :: "converter \<Rightarrow> env \<Rightarrow> string list \<Rightarrow> py_error + string list" where
  "sample_if_requested s e population =
     (case test_num_images s of
        None \<Rightarrow> Inr population
      | Some k \<Rightarrow> if k = 0 then Inr population else random_sample e population k)"

text \<open>
  Lines 67 and 68: the set that \<^verbatim>\<open>extract_images_filename\<close> returned, or the sample
  from it when \<^verbatim>\<open>self.test_num_images\<close> is true. The set is given as the list of
  its elements in the order the loop of line 79 visits them.
\<close>

definition sample_set_if_requested ::
  "converter \<Rightarrow> env \<Rightarrow> string set \<Rightarrow> py_error + string list" where
  "sample_set_if_requested s e names =
     (case test_num_images s of
        None \<Rightarrow> Inr (iter_names e names)
      | Some k \<Rightarrow> if k = 0 then Inr (iter_names e names) else random_sample_set e names k)"

text \<open>The loop of lines 79 to 83 over \<^verbatim>\<open>test_images_to_extract\<close>.\<close>

fun copy_test_images ::
  "converter \<Rightarrow> string list \<Rightarrow> string list \<times> world \<Rightarrow> string list \<times> world" where
  "copy_test_images s [] st = st"
| "copy_test_images s (filename # rest) (images_record, w) =
     (let original_filename = path_join (coco_image_dir_test s) [filename];
          new_filename = path_join (output_dir s) [''test'', ''images'', filename]
      in copy_test_images s rest
           (images_record @ [new_filename],
            w\<lparr>copied := copied w @ [(original_filename, new_filename)]\<rparr>))"

text \<open>
  The branch of \<^verbatim>\<open>process_dataset\<close> for the test split (lines 58 to 89). The local
  variable \<^verbatim>\<open>test_images_to_extract\<close> is \<open>None\<close> while no assignment has bound it;
  the loop of line 79 then raises UnboundLocalError. When the variable holds the set
  that \<^verbatim>\<open>extract_images_filename\<close> returned, the loop visits it in the set's
  iteration order.
\<close>

definition process_test_split ::
  "converter \<Rightarrow> env \<Rightarrow> string \<Rightarrow> string \<Rightarrow> world \<Rightarrow> py_error option \<times> world" where
  "process_test_split s e dataset_type coco_annotation_file w =
     (let (test_images_to_extract, w1) =
            (if test_only_target_classes s then
               (case annotation_file e coco_annotation_file of
                  Some loaded \<Rightarrow>
                    (case extract_images_filename s loaded True None False of
                       (Inl err, out) \<Rightarrow> (Inl err, w\<lparr>stdout := stdout w @ out\<rparr>)
                     | (Inr names, out) \<Rightarrow>
                         (map_sum id Some (sample_set_if_requested s e names),
                          w\<lparr>stdout := stdout w @ out\<rparr>))
                | None \<Rightarrow> (Inr None, py_print w (TestAnnotationNotFound coco_annotation_file)))
             else
               (map_sum id Some (sample_if_requested s e (listdir e (coco_image_dir_test s))),
                w))
      in
      case test_images_to_extract of
        Inl err \<Rightarrow> (Some err, w1)
      | Inr None \<Rightarrow> (Some UnboundLocalError, w1)
      | Inr (Some filenames) \<Rightarrow>
          let (images_record, w2) = copy_test_images s filenames ([], w1);
              w3 = w2\<lparr>list_files := list_files w2 @
                     [(path_join (output_dir s) [dataset_type @ ''.txt''],
                       str_join [CHR 0x0A] images_record)]\<rparr>
          in (None, py_print w3 (TestImagesStored dataset_type (length images_record))))"

text \<open>\<^verbatim>\<open>process_dataset\<close>: the exception that ended the call, if any, and the effects.\<close>

definition process_dataset ::
  "converter \<Rightarrow> env \<Rightarrow> string \<Rightarrow> string \<Rightarrow> string \<Rightarrow> string option \<Rightarrow> world
    \<Rightarrow> py_error option \<times> world" where
  "process_dataset s e dataset_type coco_annotation_file coco_image_dir single_class_name_arg w =
     (let w0 = py_print w (Processing dataset_type) in
      if dataset_type = ''test'' then process_test_split s e dataset_type coco_annotation_file w0
      else
        (case annotation_file e coco_annotation_file of
           Some loaded \<Rightarrow>
             process_annotated_split s e dataset_type loaded coco_image_dir
               single_class_name_arg w0
         | None \<Rightarrow> (None, py_print w0 (AnnotationFileNotFound coco_annotation_file))))"

section \<open>The orchestrator\<close>

text \<open>
  The body of \<^verbatim>\<open>COCOConverter.__init__\<close> after the arguments are read: the three
  splits in turn. An exception in one split ends the run.
\<close>

definition run_converter :: "converter \<Rightarrow> env \<Rightarrow> world \<Rightarrow> py_error option \<times> world" where
  "run_converter s e w =
     (let single = (if create_single_class s then Some (single_class_name s) else None) in
      case process_dataset s e ''train'' (coco_annotation_train s) (coco_image_dir_train s)
             single w of
        (Some err, w1) \<Rightarrow> (Some err, w1)
      | (None, w1) \<Rightarrow>
          (case process_dataset s e ''valid'' (coco_annotation_val s) (coco_image_dir_val s)
                  single w1 of
             (Some err, w2) \<Rightarrow> (Some err, w2)
           | (None, w2) \<Rightarrow>
               process_dataset s e ''test'' (coco_annotation_test s) (coco_image_dir_test s)
                 None w2))"

section \<open>Notions of the specification\<close>

text \<open>
  An annotation whose category resolves to a name in \<^verbatim>\<open>target_classes\<close>; an
  annotation whose \<^verbatim>\<open>category_id\<close> is no category's \<^verbatim>\<open>id\<close> resolves to no name.
\<close>

definition is_target_annotation :: "converter \<Rightarrow> coco_data \<Rightarrow> annotation \<Rightarrow> bool" where
  "is_target_annotation s d ann =
     (case category_name_of d (ann_category_id ann) of
        None \<Rightarrow> False
      | Some n \<Rightarrow> n \<in> set (target_classes s))"

text \<open>
  The class the specification expects on the line of an annotation: \<open>0\<close> when the
  target classes are merged, and the position of the category's name in
  \<^verbatim>\<open>target_classes\<close> otherwise.
\<close>

definition expected_class :: "converter \<Rightarrow> coco_data \<Rightarrow> annotation \<Rightarrow> nat" where
  "expected_class s d ann =
     (if create_single_class s then 0
      else the (Option.bind (category_name_of d (ann_category_id ann))
                  (list_index (target_classes s))))"

text \<open>The four values of a line after its class.\<close>

definition line_box :: "yolo_line \<Rightarrow> py_float \<times> py_float \<times> py_float \<times> py_float" where
  "line_box l = (yolo_x_center l, yolo_y_center l, yolo_width l, yolo_height l)"

section \<open>Example inputs\<close>

definition ex_converter :: converter where
  "ex_converter =
     \<lparr>coco_annotation_train = ''coco/annotations/instances_train2017.json'',
      coco_image_dir_train = ''coco/images/train2017'',
      coco_annotation_val = ''coco/annotations/instances_val2017.json'',
      coco_image_dir_val = ''coco/images/val2017'',
      coco_annotation_test = ''coco/annotations/instances_test2017.json'',
      coco_image_dir_test = ''coco/images/test2017'',
      output_dir = ''new_dataset'',
      target_classes = [''dog'', ''cat''],
      background_percentage = Finite (1 / 2),
      test_num_images = None,
      test_only_target_classes = False,
      create_single_class = False,
      single_class_name = ''new_class'',
      convert_to_yolo = True\<rparr>"

definition ex_image :: image_info where
  "ex_image = \<lparr>img_id = 1, img_file_name = ''a.jpg'', img_width = 100, img_height = 50\<rparr>"

definition ex_annotations :: "annotation list" where
  "ex_annotations =
     [\<lparr>ann_image_id = 1, ann_category_id = 1, ann_bbox = [PyInt 10, PyInt 20, PyInt 30, PyInt 40]\<rparr>,
      \<lparr>ann_image_id = 1, ann_category_id = 3, ann_bbox = [PyInt 1, PyInt 2, PyInt 3, PyInt 4]\<rparr>,
      \<lparr>ann_image_id = 1, ann_category_id = 2, ann_bbox = [PyInt 0, PyInt 0, PyInt 50, PyInt 25]\<rparr>]"

definition ex_data :: coco_data where
  "ex_data =
     \<lparr>images = [ex_image],
      categories =
        [\<lparr>cat_id = 1, cat_name = ''cat'', cat_supercategory = ''animal''\<rparr>,
         \<lparr>cat_id = 2, cat_name = ''dog'', cat_supercategory = ''animal''\<rparr>,
         \<lparr>cat_id = 3, cat_name = ''car'', cat_supercategory = ''vehicle''\<rparr>],
      annotations = ex_annotations\<rparr>"

text \<open>The converter of the example with \<^verbatim>\<open>cat\<close> as its only target class.\<close>

definition cat_converter :: converter where
  "cat_converter = ex_converter\<lparr>target_classes := [''cat'']\<rparr>"

text \<open>Ten images, each with one annotation of category \<^verbatim>\<open>cat\<close>, and nothing else.\<close>

definition ten_cats :: coco_data where
  "ten_cats =
     \<lparr>images =
        [\<lparr>img_id = 1, img_file_name = ''1.jpg'', img_width = 100, img_height = 50\<rparr>,
         \<lparr>img_id = 2, img_file_name = ''2.jpg'', img_width = 100, img_height = 50\<rparr>,
         \<lparr>img_id = 3, img_file_name = ''3.jpg'', img_width = 100, img_height = 50\<rparr>,
         \<lparr>img_id = 4, img_file_name = ''4.jpg'', img_width = 100, img_height = 50\<rparr>,
         \<lparr>img_id = 5, img_file_name = ''5.jpg'', img_width = 100, img_height = 50\<rparr>,
         \<lparr>img_id = 6, img_file_name = ''6.jpg'', img_width = 100, img_height = 50\<rparr>,
         \<lparr>img_id = 7, img_file_name = ''7.jpg'', img_width = 100, img_height = 50\<rparr>,
         \<lparr>img_id = 8, img_file_name = ''8.jpg'', img_width = 100, img_height = 50\<rparr>,
         \<lparr>img_id = 9, img_file_name = ''9.jpg'', img_width = 100, img_height = 50\<rparr>,
         \<lparr>img_id = 10, img_file_name = ''10.jpg'', img_width = 100, img_height = 50\<rparr>],
      categories =
        [\<lparr>cat_id = 1, cat_name = ''cat'', cat_supercategory = ''animal''\<rparr>,
         \<lparr>cat_id = 2, cat_name = ''dog'', cat_supercategory = ''animal''\<rparr>],
      annotations =
        [\<lparr>ann_image_id = 1, ann_category_id = 1, ann_bbox = [PyInt 0, PyInt 0, PyInt 10, PyInt 10]\<rparr>,
         \<lparr>ann_image_id = 2, ann_category_id = 1, ann_bbox = [PyInt 0, PyInt 0, PyInt 10, PyInt 10]\<rparr>,
         \<lparr>ann_image_id = 3, ann_category_id = 1, ann_bbox = [PyInt 0, PyInt 0, PyInt 10, PyInt 10]\<rparr>,
         \<lparr>ann_image_id = 4, ann_category_id = 1, ann_bbox = [PyInt 0, PyInt 0, PyInt 10, PyInt 10]\<rparr>,
         \<lparr>ann_image_id = 5, ann_category_id = 1, ann_bbox = [PyInt 0, PyInt 0, PyInt 10, PyInt 10]\<rparr>,
         \<lparr>ann_image_id = 6, ann_category_id = 1, ann_bbox = [PyInt 0, PyInt 0, PyInt 10, PyInt 10]\<rparr>,
         \<lparr>ann_image_id = 7, ann_category_id = 1, ann_bbox = [PyInt 0, PyInt 0, PyInt 10, PyInt 10]\<rparr>,
         \<lparr>ann_image_id = 8, ann_category_id = 1, ann_bbox = [PyInt 0, PyInt 0, PyInt 10, PyInt 10]\<rparr>,
         \<lparr>ann_image_id = 9, ann_category_id = 1, ann_bbox = [PyInt 0, PyInt 0, PyInt 10, PyInt 10]\<rparr>,
         \<lparr>ann_image_id = 10, ann_category_id = 1, ann_bbox = [PyInt 0, PyInt 0, PyInt 10, PyInt 10]\<rparr>]\<rparr>"

text \<open>The same ten images, and seven more with one annotation of category \<^verbatim>\<open>dog\<close> each.\<close>

definition ten_cats_seven_dogs :: coco_data where
  "ten_cats_seven_dogs =
     \<lparr>images =
        [\<lparr>img_id = 1, img_file_name = ''1.jpg'', img_width = 100, img_height = 50\<rparr>,
         \<lparr>img_id = 2, img_file_name = ''2.jpg'', img_width = 100, img_height = 50\<rparr>,
         \<lparr>img_id = 3, img_file_name = ''3.jpg'', img_width = 100, img_height = 50\<rparr>,
         \<lparr>img_id = 4, img_file_name = ''4.jpg'', img_width = 100, img_height = 50\<rparr>,
         \<lparr>img_id = 5, img_file_name = ''5.jpg'', img_width = 100, img_height = 50\<rparr>,
         \<lparr>img_id = 6, img_file_name = ''6.jpg'', img_width = 100, img_height = 50\<rparr>,
         \<lparr>img_id = 7, img_file_name = ''7.jpg'', img_width = 100, img_height = 50\<rparr>,
         \<lparr>img_id = 8, img_file_name = ''8.jpg'', img_width = 100, img_height = 50\<rparr>,
         \<lparr>img_id = 9, img_file_name = ''9.jpg'', img_width = 100, img_height = 50\<rparr>,
         \<lparr>img_id = 10, img_file_name = ''10.jpg'', img_width = 100, img_height = 50\<rparr>,
         \<lparr>img_id = 11, img_file_name = ''11.jpg'', img_width = 100, img_height = 50\<rparr>,
         \<lparr>img_id = 12, img_file_name = ''12.jpg'', img_width = 100, img_height = 50\<rparr>,
         \<lparr>img_id = 13, img_file_name = ''13.jpg'', img_width = 100, img_height = 50\<rparr>,
         \<lparr>img_id = 14, img_file_name = ''14.jpg'', img_width = 100, img_height = 50\<rparr>,
         \<lparr>img_id = 15, img_file_name = ''15.jpg'', img_width = 100, img_height = 50\<rparr>,
         \<lparr>img_id = 16, img_file_name = ''16.jpg'', img_width = 100, img_height = 50\<rparr>,
         \<lparr>img_id = 17, img_file_name = ''17.jpg'', img_width = 100, img_height = 50\<rparr>],
      categories =
        [\<lparr>cat_id = 1, cat_name = ''cat'', cat_supercategory = ''animal''\<rparr>,
         \<lparr>cat_id = 2, cat_name = ''dog'', cat_supercategory = ''animal''\<rparr>],
      annotations =
        [\<lparr>ann_image_id = 1, ann_category_id = 1, ann_bbox = [PyInt 0, PyInt 0, PyInt 10, PyInt 10]\<rparr>,
         \<lparr>ann_image_id = 2, ann_category_id = 1, ann_bbox = [PyInt 0, PyInt 0, PyInt 10, PyInt 10]\<rparr>,
         \<lparr>ann_image_id = 3, ann_category_id = 1, ann_bbox = [PyInt 0, PyInt 0, PyInt 10, PyInt 10]\<rparr>,
         \<lparr>ann_image_id = 4, ann_category_id = 1, ann_bbox = [PyInt 0, PyInt 0, PyInt 10, PyInt 10]\<rparr>,
         \<lparr>ann_image_id = 5, ann_category_id = 1, ann_bbox = [PyInt 0, PyInt 0, PyInt 10, PyInt 10]\<rparr>,
         \<lparr>ann_image_id = 6, ann_category_id = 1, ann_bbox = [PyInt 0, PyInt 0, PyInt 10, PyInt 10]\<rparr>,
         \<lparr>ann_image_id = 7, ann_category_id = 1, ann_bbox = [PyInt 0, PyInt 0, PyInt 10, PyInt 10]\<rparr>,
         \<lparr>ann_image_id = 8, ann_category_id = 1, ann_bbox = [PyInt 0, PyInt 0, PyInt 10, PyInt 10]\<rparr>,
         \<lparr>ann_image_id = 9, ann_category_id = 1, ann_bbox = [PyInt 0, PyInt 0, PyInt 10, PyInt 10]\<rparr>,
         \<lparr>ann_image_id = 10, ann_category_id = 1, ann_bbox = [PyInt 0, PyInt 0, PyInt 10, PyInt 10]\<rparr>,
         \<lparr>ann_image_id = 11, ann_category_id = 2, ann_bbox = [PyInt 0, PyInt 0, PyInt 10, PyInt 10]\<rparr>,
         \<lparr>ann_image_id = 12, ann_category_id = 2, ann_bbox = [PyInt 0, PyInt 0, PyInt 10, PyInt 10]\<rparr>,
         \<lparr>ann_image_id = 13, ann_category_id = 2, ann_bbox = [PyInt 0, PyInt 0, PyInt 10, PyInt 10]\<rparr>,
         \<lparr>ann_image_id = 14, ann_category_id = 2, ann_bbox = [PyInt 0, PyInt 0, PyInt 10, PyInt 10]\<rparr>,
         \<lparr>ann_image_id = 15, ann_category_id = 2, ann_bbox = [PyInt 0, PyInt 0, PyInt 10, PyInt 10]\<rparr>,
         \<lparr>ann_image_id = 16, ann_category_id = 2, ann_bbox = [PyInt 0, PyInt 0, PyInt 10, PyInt 10]\<rparr>,
         \<lparr>ann_image_id = 17, ann_category_id = 2, ann_bbox = [PyInt 0, PyInt 0, PyInt 10, PyInt 10]\<rparr>]\<rparr>"

text \<open>A catalog without categories.\<close>

definition no_categories :: coco_data where
  "no_categories =
     \<lparr>images = [ex_image],
      categories = [],
      annotations = []\<rparr>"

text \<open>
  An environment: the training annotations are \<open>ex_data\<close>, the other annotation files
  are absent, the directory of test images holds two files. Sets of identifiers are
  visited in increasing order, sets of names in the order of a fixed list.
\<close>

definition ex_env :: env where
  "ex_env =
     \<lparr>annotation_file =
        (\<lambda>p. if p = ''coco/annotations/instances_train2017.json'' then Some ex_data else None),
      listdir = (\<lambda>p. if p = ''coco/images/test2017'' then [''t1.jpg'', ''t2.jpg''] else []),
      sample = (\<lambda>population k. take k population),
      sample_accepts_set = True,
      iter_ids = (\<lambda>S. filter (\<lambda>i. i \<in> S) [1, 2, 3, 4, 5, 6, 7, 8, 9, 10]),
      iter_names = (\<lambda>S. filter (\<lambda>n. n \<in> S) [''a.jpg'', ''t1.jpg'', ''t2.jpg''])\<rparr>"

definition empty_world :: world where
  "empty_world = \<lparr>copied = [], label_files = [], list_files = [], stdout = []\<rparr>"

text \<open>An annotation whose \<^verbatim>\<open>category_id\<close> is the \<^verbatim>\<open>id\<close> of no category of \<open>ex_data\<close>.\<close>

definition unknown_annotation :: annotation where
  "unknown_annotation = \<lparr>ann_image_id = 1, ann_category_id = 99, ann_bbox = [PyInt 5, PyInt 5, PyInt 5, PyInt 5]\<rparr>"

text \<open>A converter that differs from \<open>ex_converter\<close> in fields the image selector does not read.\<close>

definition other_converter :: converter where
  "other_converter =
     ex_converter\<lparr>output_dir := ''elsewhere'', test_num_images := Some 3,
       create_single_class := True, convert_to_yolo := False\<rparr>"

text \<open>Variants of \<open>ex_converter\<close>, each with one option changed.\<close>

definition merging_converter :: converter where
  "merging_converter = ex_converter\<lparr>create_single_class := True\<rparr>"

definition all_classes_converter :: converter where
  "all_classes_converter = ex_converter\<lparr>target_classes := []\<rparr>"

definition only_target_test_converter :: converter where
  "only_target_test_converter = ex_converter\<lparr>test_only_target_classes := True\<rparr>"

definition no_background_converter :: converter where
  "no_background_converter = ex_converter\<lparr>background_percentage := Finite 0\<rparr>"

text \<open>The environment whose training annotations are the catalog without categories.\<close>

definition no_categories_env :: env where
  "no_categories_env =
     ex_env\<lparr>annotation_file :=
        (\<lambda>p. if p = ''coco/annotations/instances_train2017.json''
             then Some no_categories else None)\<rparr>"

section \<open>Evaluation of float operations\<close>

lemma float_exponent_1: "1 \<le> x \<Longrightarrow> x < 2 \<Longrightarrow> float_exponent x = 0"
  by (simp add: float_exponent.simps [of x])

lemma float_exponent_half:
  "0 < x \<Longrightarrow> x < 1 \<Longrightarrow> float_exponent x = float_exponent (2 * x) - 1"
  by (simp add: float_exponent.simps [of x])

lemma float_exponent_double: "2 \<le> x \<Longrightarrow> float_exponent x = float_exponent (x / 2) + 1"
  by (simp add: float_exponent.simps [of x])

lemmas float_eval =
  float_round_def float_exponent_1 float_exponent_half float_exponent_double pow2_def
  round_half_even_def float_overflows_def to_float_def as_float_def py_add_def py_mul_def
  py_truediv_def py_gt_def Let_def

section \<open>Properties of the transcoder\<close>

lemma py_in_target: "py_in (category_name_of d (ann_category_id ann)) (target_classes s) = is_target_annotation s d ann"
  by (simp add: py_in_def is_target_annotation_def)

lemma list_index_first:
  "x \<in> set xs \<Longrightarrow>
     \<exists>i. list_index xs x = Some i \<and> i < length xs \<and> xs ! i = x \<and> (\<forall>j<i. xs ! j \<noteq> x)"
proof (induction xs)
  case Nil
  then show ?case by simp
next
  case (Cons y ys)
  show ?case
  proof (cases "y = x")
    case True
    then show ?thesis by simp
  next
    case False
    with Cons.prems have "x \<in> set ys" by simp
    from Cons.IH [OF this] obtain i where
      i: "list_index ys x = Some i" "i < length ys" "ys ! i = x" "\<forall>j<i. ys ! j \<noteq> x"
      by blast
    have "\<forall>j<Suc i. (y # ys) ! j \<noteq> x"
    proof (intro allI impI)
      fix j assume "j < Suc i"
      then show "(y # ys) ! j \<noteq> x"
        using False i(4) by (cases j) auto
    qed
    with False i show ?thesis by simp
  qed
qed

lemma list_index_None: "x \<notin> set xs \<Longrightarrow> list_index xs x = None"
  by (induction xs) auto

text \<open>
  One step of the loop on an annotation of a target class: the class of its line is the
  expected one, and the step fails exactly when the conversion of its box fails.
\<close>

lemma coco_to_yolo_loop_target:
  assumes "is_target_annotation s d ann"
  shows "coco_to_yolo_loop s img d (ann # anns) acc =
     (case yolo_box img (ann_bbox ann) of
        Inl err \<Rightarrow> Inl err
      | Inr (x, y, w, h) \<Rightarrow>
          coco_to_yolo_loop s img d anns
            (acc @ [\<lparr>yolo_class = expected_class s d ann, yolo_x_center = x,
                     yolo_y_center = y, yolo_width = w, yolo_height = h\<rparr>]))"
proof -
  from assms obtain n where n: "category_name_of d (ann_category_id ann) = Some n"
      "n \<in> set (target_classes s)"
    by (auto simp: is_target_annotation_def split: option.splits)
  from list_index_first [OF n(2)] obtain i where i: "list_index (target_classes s) n = Some i"
    by blast
  show ?thesis
    using n i
    by (cases "create_single_class s")
       (simp_all add: py_in_def expected_class_def split: sum.split prod.split)
qed

lemma coco_to_yolo_loop_other:
  assumes "\<not> is_target_annotation s d ann"
  shows "coco_to_yolo_loop s img d (ann # anns) acc = coco_to_yolo_loop s img d anns acc"
  using assms by (simp add: py_in_target)

lemma coco_to_yolo_loop_Inr:
  "coco_to_yolo_loop s img d anns acc = Inr ls \<Longrightarrow>
     \<exists>new. ls = acc @ new \<and>
       map yolo_class new = map (expected_class s d) (filter (is_target_annotation s d) anns) \<and>
       map (\<lambda>l. Inr (line_box l)) new =
         map (\<lambda>ann. yolo_box img (ann_bbox ann)) (filter (is_target_annotation s d) anns)"
proof (induction anns arbitrary: acc)
  case Nil
  then show ?case by simp
next
  case (Cons ann anns)
  show ?case
  proof (cases "is_target_annotation s d ann")
    case False
    from Cons.prems have "coco_to_yolo_loop s img d anns acc = Inr ls"
      by (simp only: coco_to_yolo_loop_other [OF False])
    from Cons.IH [OF this] False show ?thesis by simp
  next
    case True
    from Cons.prems obtain x y w h where
      b: "yolo_box img (ann_bbox ann) = Inr (x, y, w, h)"
      and r: "coco_to_yolo_loop s img d anns
                (acc @ [\<lparr>yolo_class = expected_class s d ann, yolo_x_center = x,
                         yolo_y_center = y, yolo_width = w, yolo_height = h\<rparr>]) = Inr ls"
      unfolding coco_to_yolo_loop_target [OF True]
      by (auto split: sum.splits)
    from Cons.IH [OF r] obtain new where
      new: "ls = (acc @ [\<lparr>yolo_class = expected_class s d ann, yolo_x_center = x,
                         yolo_y_center = y, yolo_width = w, yolo_height = h\<rparr>]) @ new"
        "map yolo_class new = map (expected_class s d) (filter (is_target_annotation s d) anns)"
        "map (\<lambda>l. Inr (line_box l)) new =
           map (\<lambda>ann. yolo_box img (ann_bbox ann)) (filter (is_target_annotation s d) anns)"
      by blast
    let ?l = "\<lparr>yolo_class = expected_class s d ann, yolo_x_center = x,
                yolo_y_center = y, yolo_width = w, yolo_height = h\<rparr>"
    have "ls = acc @ (?l # new)" using new(1) by simp
    moreover have "map yolo_class (?l # new) =
        map (expected_class s d) (filter (is_target_annotation s d) (ann # anns))"
      using True new(2) by simp
    moreover have "map (\<lambda>l. Inr (line_box l)) (?l # new) =
        map (\<lambda>ann. yolo_box img (ann_bbox ann)) (filter (is_target_annotation s d) (ann # anns))"
      using True new(3) b by (simp add: line_box_def)
    ultimately show ?thesis by (intro exI [of _ "?l # new"] conjI)
  qed
qed

lemma coco_to_yolo_loop_ok:
  "(\<exists>ls. coco_to_yolo_loop s img d anns acc = Inr ls) =
   (\<forall>ann\<in>set anns. is_target_annotation s d ann \<longrightarrow>
      (\<exists>b. yolo_box img (ann_bbox ann) = Inr b))"
proof (induction anns arbitrary: acc)
  case Nil
  then show ?case by simp
next
  case (Cons ann anns)
  show ?case
  proof (cases "is_target_annotation s d ann")
    case False
    then show ?thesis
      using Cons.IH [of acc] by (simp only: coco_to_yolo_loop_other [OF False]) simp
  next
    case True
    show ?thesis
    proof (cases "yolo_box img (ann_bbox ann)")
      case (Inl err)
      with True show ?thesis
        by (simp only: coco_to_yolo_loop_target [OF True]) auto
    next
      case (Inr b)
      obtain x y w h where bb: "b = (x, y, w, h)" by (cases b) auto
      show ?thesis
        using True Inr bb
          Cons.IH [of "acc @ [\<lparr>yolo_class = expected_class s d ann, yolo_x_center = x,
                         yolo_y_center = y, yolo_width = w, yolo_height = h\<rparr>]"]
        by (simp only: coco_to_yolo_loop_target [OF True]) simp
    qed
  qed
qed

lemma coco_to_yolo_loop_filter:
  "coco_to_yolo_loop s img d (filter (is_target_annotation s d) anns) acc = coco_to_yolo_loop s img d anns acc"
proof (induction anns arbitrary: acc)
  case Nil
  then show ?case by simp
next
  case (Cons ann anns)
  show ?case
  proof (cases "is_target_annotation s d ann")
    case False
    then show ?thesis
      using Cons.IH [of acc] by (simp only: coco_to_yolo_loop_other [OF False]) simp
  next
    case True
    then show ?thesis
      using Cons.IH
      by (simp only: filter.simps if_True coco_to_yolo_loop_target [OF True])
  qed
qed

lemma expected_class_position:
  assumes "is_target_annotation s d ann" and "\<not> create_single_class s"
  shows "expected_class s d ann < length (target_classes s) \<and>
         category_name_of d (ann_category_id ann)
           = Some (target_classes s ! expected_class s d ann) \<and>
         (\<forall>j<expected_class s d ann.
            target_classes s ! j \<noteq> target_classes s ! expected_class s d ann)"
proof -
  from assms(1) obtain n where n: "category_name_of d (ann_category_id ann) = Some n"
      "n \<in> set (target_classes s)"
    by (auto simp: is_target_annotation_def split: option.splits)
  from list_index_first [OF n(2)] obtain i where
    i: "list_index (target_classes s) n = Some i" "i < length (target_classes s)"
       "target_classes s ! i = n" "\<forall>j<i. target_classes s ! j \<noteq> n"
    by blast
  have "expected_class s d ann = i"
    using assms(2) n(1) i(1) by (simp add: expected_class_def)
  with n i show ?thesis by simp
qed

text \<open>
  C3. The transcoder returns the same on a list of annotations and on its sublist of
  the annotations whose category resolves to a target class: the other annotations
  contribute nothing, neither a line nor an exception. It returns lines exactly when the
  box of each annotation of a target class converts (\<open>yolo_box\<close> raises nothing), whether
  the classes are merged or not. The lines it returns are as many as the annotations of
  a target class, in order, and the class of a line is \<open>0\<close> when
  \<^verbatim>\<open>create_single_class\<close> is set; otherwise it is the first position in
  \<^verbatim>\<open>target_classes\<close> of the name of the annotation's category.
\<close>

theorem yolo_class_index:
  "coco_to_yolo_format s img anns d =
     coco_to_yolo_format s img (filter (is_target_annotation s d) anns) d \<and>
   ((\<exists>ls. coco_to_yolo_format s img anns d = Inr ls) =
    (\<forall>ann\<in>set anns. is_target_annotation s d ann \<longrightarrow>
       (\<exists>b. yolo_box img (ann_bbox ann) = Inr b))) \<and>
   (\<forall>ls. coco_to_yolo_format s img anns d = Inr ls \<longrightarrow>
      length ls = length (filter (is_target_annotation s d) anns) \<and>
      (\<forall>k<length ls.
         if create_single_class s then yolo_class (ls ! k) = 0
         else yolo_class (ls ! k) < length (target_classes s) \<and>
              category_name_of d (ann_category_id (filter (is_target_annotation s d) anns ! k))
                = Some (target_classes s ! yolo_class (ls ! k)) \<and>
              (\<forall>j<yolo_class (ls ! k).
                 target_classes s ! j \<noteq> target_classes s ! yolo_class (ls ! k))))"
proof (intro conjI allI impI)
  let ?ms = "filter (is_target_annotation s d) anns"
  show "coco_to_yolo_format s img anns d = coco_to_yolo_format s img ?ms d"
    by (simp add: coco_to_yolo_format_def coco_to_yolo_loop_filter)
  show "(\<exists>ls. coco_to_yolo_format s img anns d = Inr ls) =
    (\<forall>ann\<in>set anns. is_target_annotation s d ann \<longrightarrow>
       (\<exists>b. yolo_box img (ann_bbox ann) = Inr b))"
    unfolding coco_to_yolo_format_def by (rule coco_to_yolo_loop_ok)
  fix ls
  assume r: "coco_to_yolo_format s img anns d = Inr ls"
  from coco_to_yolo_loop_Inr [of s img d anns "[]" ls] r
  have cls: "map yolo_class ls = map (expected_class s d) ?ms"
    by (auto simp: coco_to_yolo_format_def)
  from cls have "length (map yolo_class ls) = length (map (expected_class s d) ?ms)"
    by (rule arg_cong)
  then show len: "length ls = length ?ms" by simp
  fix k
  assume k: "k < length ls"
  from cls have "map yolo_class ls ! k = map (expected_class s d) ?ms ! k" by (rule arg_cong)
  with k len have ck: "yolo_class (ls ! k) = expected_class s d (?ms ! k)" by simp
  from k len have "k < length ?ms" by simp
  then have "?ms ! k \<in> set ?ms" by (rule nth_mem)
  then have t: "is_target_annotation s d (?ms ! k)" by simp
  show "if create_single_class s then yolo_class (ls ! k) = 0
         else yolo_class (ls ! k) < length (target_classes s) \<and>
              category_name_of d (ann_category_id (?ms ! k))
                = Some (target_classes s ! yolo_class (ls ! k)) \<and>
              (\<forall>j<yolo_class (ls ! k).
                 target_classes s ! j \<noteq> target_classes s ! yolo_class (ls ! k))"
  proof (cases "create_single_class s")
    case True
    then show ?thesis by (simp add: ck expected_class_def)
  next
    case False
    from expected_class_position [OF t False] False show ?thesis
      unfolding ck by simp
  qed
qed

lemma ex_image_boxes:
  "yolo_box ex_image [PyInt 10, PyInt 20, PyInt 30, PyInt 40] =
     Inr (Finite (1 / 4), Finite (float_round (4 / 5)), Finite (float_round (3 / 10)),
          Finite (float_round (4 / 5)))"
  "yolo_box ex_image [PyInt 0, PyInt 0, PyInt 50, PyInt 25] =
     Inr (Finite (1 / 4), Finite (1 / 4), Finite (1 / 2), Finite (1 / 2))"
  by (simp_all add: yolo_box_def ex_image_def float_eval)

theorem yolo_class_index_witness:
  "(\<exists>ls. coco_to_yolo_format ex_converter ex_image ex_annotations ex_data = Inr ls \<and>
      length ls = 2 \<and> yolo_class (ls ! 0) = 1 \<and> yolo_class (ls ! 1) = 0) \<and>
   (\<exists>ls. coco_to_yolo_format merging_converter ex_image ex_annotations ex_data = Inr ls \<and>
      length ls = 2 \<and> yolo_class (ls ! 0) = 0 \<and> yolo_class (ls ! 1) = 0) \<and>
   coco_to_yolo_format merging_converter ex_image ex_annotations ex_data =
     coco_to_yolo_format merging_converter ex_image
       [\<lparr>ann_image_id = 1, ann_category_id = 1,
          ann_bbox = [PyInt 10, PyInt 20, PyInt 30, PyInt 40]\<rparr>,
        \<lparr>ann_image_id = 1, ann_category_id = 2,
          ann_bbox = [PyInt 0, PyInt 0, PyInt 50, PyInt 25]\<rparr>] ex_data"
proof -
  let ?ms = "[\<lparr>ann_image_id = 1, ann_category_id = 1,
                ann_bbox = [PyInt 10, PyInt 20, PyInt 30, PyInt 40]\<rparr>,
              \<lparr>ann_image_id = 1, ann_category_id = 2,
                ann_bbox = [PyInt 0, PyInt 0, PyInt 50, PyInt 25]\<rparr>]"
  have f1: "filter (is_target_annotation ex_converter ex_data) ex_annotations = ?ms"
    by (simp add: ex_annotations_def is_target_annotation_def category_name_of_def
          ex_data_def ex_converter_def)
  have f2: "filter (is_target_annotation merging_converter ex_data) ex_annotations = ?ms"
    by (simp add: ex_annotations_def is_target_annotation_def category_name_of_def
          ex_data_def ex_converter_def merging_converter_def)
  have b: "\<forall>ann\<in>set ex_annotations. is_target_annotation s ex_data ann \<longrightarrow>
             (\<exists>b. yolo_box ex_image (ann_bbox ann) = Inr b)"
    if "target_classes s = [''dog'', ''cat'']" for s
    using that
    by (simp add: ex_annotations_def ex_image_boxes)
       (simp add: ex_data_def is_target_annotation_def category_name_of_def)
  have b1: "\<forall>ann\<in>set ex_annotations. is_target_annotation ex_converter ex_data ann \<longrightarrow>
             (\<exists>b. yolo_box ex_image (ann_bbox ann) = Inr b)"
    by (rule b) (simp add: ex_converter_def)
  have b2: "\<forall>ann\<in>set ex_annotations. is_target_annotation merging_converter ex_data ann \<longrightarrow>
             (\<exists>b. yolo_box ex_image (ann_bbox ann) = Inr b)"
    by (rule b) (simp add: ex_converter_def merging_converter_def)
  note t1 = yolo_class_index [where s = ex_converter and img = ex_image
      and anns = ex_annotations and d = ex_data]
  note t2 = yolo_class_index [where s = merging_converter and img = ex_image
      and anns = ex_annotations and d = ex_data]
  from t1 b1 obtain ls1 where
    ls1: "coco_to_yolo_format ex_converter ex_image ex_annotations ex_data = Inr ls1"
    by blast
  from t2 b2 obtain ls2 where
    ls2: "coco_to_yolo_format merging_converter ex_image ex_annotations ex_data = Inr ls2"
    by blast
  note c1 = t1 [THEN conjunct2, THEN conjunct2, THEN spec, THEN mp, OF ls1]
  note c2 = t2 [THEN conjunct2, THEN conjunct2, THEN spec, THEN mp, OF ls2]
  from c1 have len1: "length ls1 = 2" by (simp add: f1)
  from c2 have len2: "length ls2 = 2" by (simp add: f2)
  have names: "category_name_of ex_data 1 = Some ''cat''" "category_name_of ex_data 2 = Some ''dog''"
    by (simp_all add: category_name_of_def ex_data_def)
  have tc: "target_classes ex_converter = [''dog'', ''cat'']" "\<not> create_single_class ex_converter"
    "create_single_class merging_converter"
    by (simp_all add: ex_converter_def merging_converter_def)
  define i where "i = yolo_class (ls1 ! 0)"
  define j where "j = yolo_class (ls1 ! 1)"
  from c1 [THEN conjunct2, THEN spec, of 0] len1
  have "i < 2 \<and> Some ''cat'' = Some ([''dog'', ''cat''] ! i)"
    by (simp add: f1 tc names i_def)
  then have i1: "yolo_class (ls1 ! 0) = 1" unfolding i_def by (cases "yolo_class (ls1 ! 0)") simp_all
  from c1 [THEN conjunct2, THEN spec, of 1] len1
  have "j < 2 \<and> Some ''dog'' = Some ([''dog'', ''cat''] ! j)"
    by (simp add: f1 tc names j_def)
  then have j0: "yolo_class (ls1 ! 1) = 0" unfolding j_def by (cases "yolo_class (ls1 ! 1)") simp_all
  from c2 [THEN conjunct2, THEN spec, of 0] len2
  have m0: "yolo_class (ls2 ! 0) = 0" by (simp add: tc)
  from c2 [THEN conjunct2, THEN spec, of 1] len2
  have m1: "yolo_class (ls2 ! 1) = 0" by (simp add: tc)
  from t2 [THEN conjunct1]
  have om: "coco_to_yolo_format merging_converter ex_image ex_annotations ex_data =
     coco_to_yolo_format merging_converter ex_image ?ms ex_data"
    unfolding f2 .
  have e1: "\<exists>ls. coco_to_yolo_format ex_converter ex_image ex_annotations ex_data = Inr ls \<and>
      length ls = 2 \<and> yolo_class (ls ! 0) = 1 \<and> yolo_class (ls ! 1) = 0"
    by (intro exI [of _ ls1] conjI) (rule ls1 len1 i1 j0)+
  have e2: "\<exists>ls. coco_to_yolo_format merging_converter ex_image ex_annotations ex_data = Inr ls \<and>
      length ls = 2 \<and> yolo_class (ls ! 0) = 0 \<and> yolo_class (ls ! 1) = 0"
    by (intro exI [of _ ls2] conjI) (rule ls2 len2 m0 m1)+
  from e1 e2 om show ?thesis by (intro conjI)
qed

section \<open>Properties of the image selector\<close>

lemma target_scan:
  "extract_images_id_loop s d True num anns U =
     Inr (U \<union> ann_image_id ` set (filter (is_target_annotation s d) anns))"
  by (induction anns arbitrary: U) (auto simp: py_in_target Let_def)

lemma extract_images_id_target:
  "extract_images_id s d True num False =
     Inr (ann_image_id ` {a \<in> set (annotations d). is_target_annotation s d a})"
  by (simp add: extract_images_id_def target_scan)

lemma background_scan:
  assumes m: "\<And>k. exceeds_background s k (Some n) = Inr (m < k)"
  shows "finite U \<Longrightarrow> card U \<le> m \<Longrightarrow>
     \<exists>B. extract_images_id_loop s d False (Some n) anns U = Inr B \<and>
         U \<subseteq> B \<and> B \<subseteq> U \<union> ann_image_id ` set (filter (\<lambda>a. \<not> is_target_annotation s d a) anns) \<and>
         card B = min (Suc m) (card (U \<union> ann_image_id ` set (filter (\<lambda>a. \<not> is_target_annotation s d a) anns)))"
proof (induction anns arbitrary: U)
  case Nil
  then show ?case by simp
next
  case (Cons a anns)
  let ?N = "\<lambda>xs. ann_image_id ` set (filter (\<lambda>a. \<not> is_target_annotation s d a) xs)"
  show ?case
  proof (cases "is_target_annotation s d a")
    case True
    then have step: "extract_images_id_loop s d False (Some n) (a # anns) U =
                 extract_images_id_loop s d False (Some n) anns U"
      by (simp add: py_in_target)
    from True have same: "?N (a # anns) = ?N anns" by simp
    from Cons.IH [OF Cons.prems] show ?thesis
      unfolding step same .
  next
    case False
    let ?U' = "insert (ann_image_id a) U"
    have fin: "finite ?U'" using Cons.prems by simp
    have un: "?U' \<union> ?N anns = U \<union> ?N (a # anns)" using False by auto
    show ?thesis
    proof (cases "card ?U' > m")
      case True
      have "card ?U' \<le> Suc (card U)" using Cons.prems(1) by (simp add: card_insert_if)
      with True Cons.prems(2) have c: "card ?U' = Suc m" by linarith
      have sub: "?U' \<subseteq> U \<union> ?N (a # anns)" using False by auto
      have "finite (U \<union> ?N (a # anns))" using Cons.prems(1) by simp
      then have "card ?U' \<le> card (U \<union> ?N (a # anns))" using sub by (rule card_mono)
      with c have cm: "card ?U' = min (Suc m) (card (U \<union> ?N (a # anns)))" by simp
      have r: "extract_images_id_loop s d False (Some n) (a # anns) U = Inr ?U'"
        using False True by (simp add: py_in_target Let_def m)
      have "U \<subseteq> ?U'" by (rule subset_insertI)
      with r sub cm show ?thesis by blast
    next
      case le: False
      then have "card ?U' \<le> m" by simp
      from Cons.IH [OF fin this] obtain B where
        B: "extract_images_id_loop s d False (Some n) anns ?U' = Inr B" "?U' \<subseteq> B"
           "B \<subseteq> ?U' \<union> ?N anns" "card B = min (Suc m) (card (?U' \<union> ?N anns))"
        by blast
      have r: "extract_images_id_loop s d False (Some n) (a # anns) U = Inr B"
        using False le B(1) by (simp add: py_in_target Let_def m)
      from B(2) have s1: "U \<subseteq> B" by simp
      from B(3) have s2: "B \<subseteq> U \<union> ?N (a # anns)" unfolding un .
      from B(4) have s3: "card B = min (Suc m) (card (U \<union> ?N (a # anns)))" unfolding un .
      from r s1 s2 s3 show ?thesis by blast
    qed
  qed
qed

lemma category_name_of_catalog:
  "categories d1 = categories d2 \<Longrightarrow> category_name_of d1 c = category_name_of d2 c"
  by (simp add: category_name_of_def)

lemma extract_images_id_loop_catalog:
  assumes "categories d1 = categories d2"
  shows "extract_images_id_loop s d1 t num anns U = extract_images_id_loop s d2 t num anns U"
proof (induction anns arbitrary: U t num)
  case Nil
  show ?case by simp
next
  case (Cons a anns)
  show ?case
    by (simp add: category_name_of_catalog [OF assms] Cons.IH Let_def split: sum.split)
qed

lemma exceeds_background_config:
  "background_percentage s1 = background_percentage s2 \<Longrightarrow>
     exceeds_background s1 k num = exceeds_background s2 k num"
  by (simp add: exceeds_background_def split: option.split)

lemma extract_images_id_loop_config:
  assumes "target_classes s1 = target_classes s2"
    and "background_percentage s1 = background_percentage s2"
  shows "extract_images_id_loop s1 d t num anns U = extract_images_id_loop s2 d t num anns U"
proof (induction anns arbitrary: U t num)
  case Nil
  show ?case by simp
next
  case (Cons a anns)
  show ?case
    by (simp add: assms(1) exceeds_background_config [OF assms(2)] Cons.IH Let_def
          split: sum.split)
qed

lemma extract_images_filename_loop_catalog:
  assumes "categories d1 = categories d2" and "images d1 = images d2"
  shows "extract_images_filename_loop s d1 t num anns U out =
         extract_images_filename_loop s d2 t num anns U out"
proof (induction anns arbitrary: U out t num)
  case Nil
  show ?case by simp
next
  case (Cons a anns)
  show ?case
    by (simp add: category_name_of_catalog [OF assms(1)] assms(2) Cons.IH Let_def
          split: sum.split)
qed

lemma extract_images_filename_loop_config:
  assumes "target_classes s1 = target_classes s2"
    and "background_percentage s1 = background_percentage s2"
  shows "extract_images_filename_loop s1 d t num anns U out =
         extract_images_filename_loop s2 d t num anns U out"
proof (induction anns arbitrary: U out t num)
  case Nil
  show ?case by simp
next
  case (Cons a anns)
  show ?case
    by (simp add: assms(1) exceeds_background_config [OF assms(2)] Cons.IH Let_def
          split: sum.split)
qed

lemma extract_images_id_loop_skip:
  assumes "\<not> is_target_annotation s d a"
  shows "extract_images_id_loop s d True num (xs @ a # ys) U =
         extract_images_id_loop s d True num (xs @ ys) U"
proof (induction xs arbitrary: U)
  case Nil
  show ?case using assms by (simp add: py_in_target)
next
  case (Cons x xs)
  show ?case by (simp add: Cons.IH Let_def)
qed

lemma extract_images_filename_loop_skip:
  assumes "\<not> is_target_annotation s d a"
  shows "extract_images_filename_loop s d True num (xs @ a # ys) U out =
         extract_images_filename_loop s d True num (xs @ ys) U out"
proof (induction xs arbitrary: U out)
  case Nil
  show ?case using assms by (simp add: py_in_target)
next
  case (Cons x xs)
  show ?case by (simp add: Cons.IH Let_def)
qed

lemma coco_to_yolo_loop_skip:
  assumes "\<not> is_target_annotation s d a"
  shows "coco_to_yolo_loop s img d (xs @ a # ys) acc = coco_to_yolo_loop s img d (xs @ ys) acc"
proof -
  have "filter (is_target_annotation s d) (xs @ a # ys) =
        filter (is_target_annotation s d) (xs @ ys)"
    using assms by simp
  then show ?thesis
    using coco_to_yolo_loop_filter [of s img d "xs @ a # ys" acc]
      coco_to_yolo_loop_filter [of s img d "xs @ ys" acc]
    by simp
qed

lemma unknown_category_None:
  "cid \<notin> cat_id ` set (categories d) \<Longrightarrow> category_name_of d cid = None"
  by (auto simp: category_name_of_def find_None_iff)

lemma half_of_ten:
  "background_percentage s = Finite (1 / 2) \<Longrightarrow> exceeds_background s k (Some 10) = Inr (5 < k)"
  by (simp add: exceeds_background_def float_eval)

text \<open>
  C4 (as amended). With a single target class, \<^verbatim>\<open>background_percentage = 0.5\<close> and a
  set of 10 images with target classes, the scan for background images returns a set of
  at most 6 images: it leaves the loop once the set is larger than 5, the test being made
  after each insertion. The size of the set is the smaller of 6 and the number of
  distinct images that carry an annotation resolving to no target class; so the set is
  non-empty exactly when there is such an annotation.
\<close>

theorem background_scan_size:
  assumes "target_classes s = [c]" and "background_percentage s = Finite (1 / 2)"
    and "extract_images_id s d True None False = Inr T" and "card T = 10"
  shows "\<exists>B. extract_images_id s d False (Some (int (card T))) False = Inr B \<and>
           card B \<le> 6 \<and>
           card B = min 6 (card (ann_image_id `
                      {a \<in> set (annotations d). \<not> is_target_annotation s d a})) \<and>
           (0 < card B) = (\<exists>a \<in> set (annotations d). \<not> is_target_annotation s d a)"
proof -
  let ?N = "ann_image_id ` {a \<in> set (annotations d). \<not> is_target_annotation s d a}"
  have m: "\<And>k. exceeds_background s k (Some 10) = Inr (5 < k)"
    using assms(2) by (rule half_of_ten)
  have "finite ({}::int set)" and "card ({}::int set) \<le> 5" by simp_all
  from background_scan [OF m this, of d "annotations d"] obtain B where
    B: "extract_images_id_loop s d False (Some 10) (annotations d) {} = Inr B"
       "card B = min (Suc 5) (card ?N)"
    by auto
  have r: "extract_images_id s d False (Some (int (card T))) False = Inr B"
    using B(1) by (simp add: extract_images_id_def assms(4))
  have c: "card B = min 6 (card ?N)" using B(2) by simp
  have fin: "finite ?N" by simp
  have "(0 < card B) = (?N \<noteq> {})"
    using c fin by (auto simp: card_gt_0_iff)
  also have "\<dots> = (\<exists>a \<in> set (annotations d). \<not> is_target_annotation s d a)" by auto
  finally have pos: "(0 < card B) = (\<exists>a \<in> set (annotations d). \<not> is_target_annotation s d a)" .
  from c have le6: "card B \<le> 6" by simp
  show ?thesis
    by (intro exI [of _ B] conjI) (rule r le6 c pos)+
qed

lemma ten_cats_target:
  "extract_images_id cat_converter ten_cats True None False = Inr {10, 9, 8, 7, 6, 5, 4, 3, 2, 1}"
  by (simp add: extract_images_id_def ten_cats_def cat_converter_def ex_converter_def
        category_name_of_def py_in_def exceeds_background_def Let_def)

lemma ten_cats_background:
  "extract_images_id cat_converter ten_cats False (Some 10) False = Inr {}"
  by (simp add: extract_images_id_def ten_cats_def cat_converter_def ex_converter_def
        category_name_of_def py_in_def exceeds_background_def Let_def)

text \<open>
  Ten images with one \<^verbatim>\<open>cat\<close> annotation each and no other annotation: the set of
  images with target classes has 10 elements and the set of background images is empty.
\<close>

theorem background_scan_size_counterexample:
  "extract_images_id cat_converter ten_cats True None False =
     Inr {10, 9, 8, 7, 6, 5, 4, 3, 2, 1} \<and>
   card {10, 9, 8, 7, 6, 5, 4, 3, 2, 1 :: int} = 10 \<and>
   extract_images_id cat_converter ten_cats False (Some 10) False = Inr {} \<and>
   \<not> (0 < card ({} :: int set) \<and> card ({} :: int set) \<le> 6)"
  by (simp add: ten_cats_target ten_cats_background)

lemma ten_cats_seven_dogs_target:
  "extract_images_id cat_converter ten_cats_seven_dogs True None False =
     Inr {10, 9, 8, 7, 6, 5, 4, 3, 2, 1}"
  by (simp add: extract_images_id_def ten_cats_seven_dogs_def cat_converter_def ex_converter_def
        category_name_of_def py_in_def Let_def)

theorem background_scan_size_witness:
  "\<exists>B. extract_images_id cat_converter ten_cats_seven_dogs False (Some 10) False = Inr B \<and>
       card B \<le> 6 \<and> 0 < card B"
proof -
  have c: "target_classes cat_converter = [''cat'']"
    and p: "background_percentage cat_converter = Finite (1 / 2)"
    by (simp_all add: cat_converter_def ex_converter_def)
  have n: "card {10, 9, 8, 7, 6, 5, 4, 3, 2, 1 :: int} = 10" by simp
  have e: "\<exists>a \<in> set (annotations ten_cats_seven_dogs).
             \<not> is_target_annotation cat_converter ten_cats_seven_dogs a"
    by (simp add: ten_cats_seven_dogs_def is_target_annotation_def category_name_of_def
          cat_converter_def ex_converter_def)
  from background_scan_size [OF c p ten_cats_seven_dogs_target n] e n
  show ?thesis by auto
qed

lemma extract_images_id_annotations:
  "extract_images_id s (d\<lparr>annotations := anns\<rparr>) t num False =
     extract_images_id_loop s d t num anns {}"
  by (simp add: extract_images_id_def extract_images_id_loop_catalog [of "d\<lparr>annotations := anns\<rparr>" d])

lemma extract_images_filename_annotations:
  "extract_images_filename s (d\<lparr>annotations := anns\<rparr>) t num False =
     extract_images_filename_loop s d t num anns {} []"
  by (simp add: extract_images_filename_def
        extract_images_filename_loop_catalog [of "d\<lparr>annotations := anns\<rparr>" d])

text \<open>
  C9. For an annotation whose \<^verbatim>\<open>category_id\<close> is the \<^verbatim>\<open>id\<close> of no category, the lookup
  of the category's name returns \<open>None\<close> (it raises nothing), and the annotation counts
  for nothing: the YOLO transcoder and the scans for images with target classes (by
  identifier and by file name) return what they return without that annotation.
\<close>

theorem unknown_category_omitted:
  assumes "ann_category_id a \<notin> cat_id ` set (categories d)"
  shows "category_name_of d (ann_category_id a) = None \<and>
         coco_to_yolo_format s img (xs @ a # ys) d = coco_to_yolo_format s img (xs @ ys) d \<and>
         extract_images_id s (d\<lparr>annotations := xs @ a # ys\<rparr>) True num False =
           extract_images_id s (d\<lparr>annotations := xs @ ys\<rparr>) True num False \<and>
         extract_images_filename s (d\<lparr>annotations := xs @ a # ys\<rparr>) True num False =
           extract_images_filename s (d\<lparr>annotations := xs @ ys\<rparr>) True num False"
proof -
  have none: "category_name_of d (ann_category_id a) = None"
    using assms by (rule unknown_category_None)
  then have nt: "\<not> is_target_annotation s d a"
    by (simp add: is_target_annotation_def)
  have yolo: "coco_to_yolo_format s img (xs @ a # ys) d = coco_to_yolo_format s img (xs @ ys) d"
    by (simp add: coco_to_yolo_format_def coco_to_yolo_loop_skip [OF nt])
  have ids: "extract_images_id s (d\<lparr>annotations := xs @ a # ys\<rparr>) True num False =
           extract_images_id s (d\<lparr>annotations := xs @ ys\<rparr>) True num False"
    by (simp only: extract_images_id_annotations extract_images_id_loop_skip [OF nt])
  have names: "extract_images_filename s (d\<lparr>annotations := xs @ a # ys\<rparr>) True num False =
           extract_images_filename s (d\<lparr>annotations := xs @ ys\<rparr>) True num False"
    by (simp only: extract_images_filename_annotations extract_images_filename_loop_skip [OF nt])
  from none yolo ids names show ?thesis by blast
qed

theorem unknown_category_omitted_witness:
  "category_name_of ex_data 99 = None \<and>
   coco_to_yolo_format ex_converter ex_image (unknown_annotation # ex_annotations) ex_data =
     coco_to_yolo_format ex_converter ex_image ex_annotations ex_data \<and>
   extract_images_id ex_converter (ex_data\<lparr>annotations := unknown_annotation # ex_annotations\<rparr>)
       True None False =
     extract_images_id ex_converter (ex_data\<lparr>annotations := ex_annotations\<rparr>) True None False"
proof -
  have h: "ann_category_id unknown_annotation \<notin> cat_id ` set (categories ex_data)"
    by (simp add: unknown_annotation_def ex_data_def)
  have i: "ann_category_id unknown_annotation = 99"
    by (simp add: unknown_annotation_def)
  from unknown_category_omitted [OF h, of ex_converter ex_image "[]" ex_annotations None]
  show ?thesis by (simp add: i)
qed

text \<open>
  C2 (the code departs from the claim). An image with an annotation of a target class and
  an annotation of another class is put into both sets: here \<^verbatim>\<open>dog\<close> and \<^verbatim>\<open>cat\<close> are the
  target classes and image 1 also carries a \<^verbatim>\<open>car\<close>. The image is then converted twice:
  its path stands twice in the list of the split, and its label file is written a second
  time, empty.
\<close>

theorem image_in_both_sets:
  "select_images ex_converter ex_data = Inr ({1}, {1}) \<and>
   list_files (snd (process_dataset ex_converter ex_env ''train''
       (coco_annotation_train ex_converter) (coco_image_dir_train ex_converter)
       None empty_world)) =
     [(''new_dataset/train.txt'', ''train/images/a.jpg'' @ [CHR 0x0A] @ ''train/images/a.jpg'')] \<and>
   label_files (snd (process_dataset ex_converter ex_env ''train''
       (coco_annotation_train ex_converter) (coco_image_dir_train ex_converter)
       None empty_world)) =
     [(''new_dataset/train/labels/a.txt'',
       YoloText [\<lparr>yolo_class = 1, yolo_x_center = Finite (1 / 4),
                   yolo_y_center = Finite (float_round (4 / 5)),
                   yolo_width = Finite (float_round (3 / 10)),
                   yolo_height = Finite (float_round (4 / 5))\<rparr>,
                 \<lparr>yolo_class = 0, yolo_x_center = Finite (1 / 4),
                   yolo_y_center = Finite (1 / 4),
                   yolo_width = Finite (1 / 2), yolo_height = Finite (1 / 2)\<rparr>]),
      (''new_dataset/train/labels/a.txt'', YoloText [])]"
  by (simp add: process_dataset_def process_annotated_split_def select_images_def
        extract_images_id_def coco_to_yolo_format_def convert_image_def image_by_id_def
        category_name_of_def py_in_def splitext_root_def py_print_def empty_world_def
        exceeds_background_def yolo_box_def float_eval
        ex_converter_def ex_env_def ex_data_def ex_image_def ex_annotations_def)


section \<open>Properties of the class resolver\<close>

lemma find_append_new:
  "find P xs = None \<Longrightarrow> P y \<Longrightarrow> find P (xs @ [y]) = Some y"
  by (induction xs) (auto split: if_splits)

lemma create_new_class_reuses:
  "find (\<lambda>cat. cat_name cat = single_class_name s) (categories d) = Some c \<Longrightarrow>
     create_new_class s d = Inr d"
  by (simp add: create_new_class_def)

lemma create_new_class_mints:
  assumes "find (\<lambda>cat. cat_name cat = single_class_name s) (categories d) = None"
    and "categories d \<noteq> []"
  shows "create_new_class s d =
           Inr (d\<lparr>categories := categories d @
                  [\<lparr>cat_id = Max (cat_id ` set (categories d)) + 1,
                    cat_name = single_class_name s,
                    cat_supercategory = single_class_name s\<rparr>]\<rparr>)"
proof -
  from assms(2) obtain c cs where cs: "categories d = c # cs" by (cases "categories d") auto
  have "fold max (map cat_id cs) (cat_id c) = Max (set (cat_id c # map cat_id cs))"
    by (rule Max.set_eq_fold [symmetric])
  then have "fold max (map cat_id cs) (cat_id c) = Max (cat_id ` set (categories d))"
    by (simp add: cs)
  then show ?thesis using assms(1) by (simp add: create_new_class_def cs)
qed

lemma create_new_class_raises:
  "create_new_class s d = Inl err \<Longrightarrow> categories d = [] \<and> err = ValueError"
  by (auto simp: create_new_class_def split: option.splits list.splits)

lemma create_new_class_idempotent:
  assumes "create_new_class s d = Inr d'"
  shows "create_new_class s d' = Inr d'"
proof (cases "find (\<lambda>cat. cat_name cat = single_class_name s) (categories d)")
  case (Some c)
  with assms have "d' = d" by (simp add: create_new_class_def)
  with Some show ?thesis by (simp add: create_new_class_def)
next
  case None
  with assms obtain new where
    d': "d' = d\<lparr>categories := categories d @ [new]\<rparr>" and n: "cat_name new = single_class_name s"
    by (auto simp: create_new_class_def split: list.splits)
  from find_append_new [OF None, of new] n
  have "find (\<lambda>cat. cat_name cat = single_class_name s) (categories d') = Some new"
    by (simp add: d')
  then show ?thesis by (rule create_new_class_reuses)
qed

text \<open>
  C5 (the code departs from the claim). On a catalog without categories
  \<^verbatim>\<open>create_new_class\<close> appends nothing: \<^verbatim>\<open>max\<close> of the empty sequence of identifiers
  raises ValueError, which ends the run. (On every other catalog the claim holds, see
  \<open>create_new_class_mints\<close>, \<open>create_new_class_reuses\<close> and
  \<open>create_new_class_idempotent\<close>.)
\<close>

theorem create_new_class_empty_catalog:
  "create_new_class merging_converter no_categories = Inl ValueError \<and>
   fst (run_converter merging_converter no_categories_env empty_world) = Some ValueError"
  by (simp add: create_new_class_def no_categories_def merging_converter_def ex_converter_def
        run_converter_def process_dataset_def process_annotated_split_def no_categories_env_def
        ex_env_def py_print_def empty_world_def Let_def)

section \<open>Properties of the split materializer and of the run\<close>

lemma py_in_no_classes: "py_in category_name [] = False"
  by (cases category_name) (simp_all add: py_in_def)

lemma coco_to_yolo_loop_no_classes:
  "target_classes s = [] \<Longrightarrow> coco_to_yolo_loop s img d anns acc = Inr acc"
  by (induction anns arbitrary: acc) (simp_all add: py_in_no_classes)

lemma coco_to_yolo_format_no_classes:
  "target_classes s = [] \<Longrightarrow> coco_to_yolo_format s img anns d = Inr []"
  by (simp add: coco_to_yolo_format_def coco_to_yolo_loop_no_classes)

lemma select_images_no_classes:
  "target_classes s = [] \<Longrightarrow> select_images s d = Inr (set (map img_id (images d)), {})"
  by (simp add: select_images_def extract_images_id_def)

text \<open>
  C6 (the code departs from the claim). With an empty \<^verbatim>\<open>target_classes\<close> every image is
  selected and the background set is empty, but in YOLO mode no annotation is kept: the
  transcoder tests each name for membership in the empty list, so the label file of an
  image with three annotations is empty.
\<close>

theorem empty_target_classes_empty_labels:
  "select_images all_classes_converter ex_data = Inr ({1}, {}) \<and>
   length (filter (\<lambda>ann. ann_image_id ann = 1) (annotations ex_data)) = 3 \<and>
   coco_to_yolo_format all_classes_converter ex_image
       (filter (\<lambda>ann. ann_image_id ann = 1) (annotations ex_data)) ex_data = Inr [] \<and>
   label_files (snd (process_dataset all_classes_converter ex_env ''train''
       (coco_annotation_train all_classes_converter) (coco_image_dir_train all_classes_converter)
       None empty_world)) =
     [(''new_dataset/train/labels/a.txt'', YoloText [])]"
proof -
  have t: "target_classes all_classes_converter = []"
    by (simp add: all_classes_converter_def)
  have s: "select_images all_classes_converter ex_data = Inr ({1}, {})"
    by (simp add: select_images_no_classes [OF t] ex_data_def ex_image_def)
  have n: "length (filter (\<lambda>ann. ann_image_id ann = 1) (annotations ex_data)) = 3"
    by (simp add: ex_data_def ex_annotations_def)
  have p: "label_files (snd (process_dataset all_classes_converter ex_env ''train''
       (coco_annotation_train all_classes_converter) (coco_image_dir_train all_classes_converter)
       None empty_world)) =
     [(''new_dataset/train/labels/a.txt'', YoloText [])]"
    by (simp add: process_dataset_def process_annotated_split_def select_images_def
          extract_images_id_def coco_to_yolo_format_def convert_image_def image_by_id_def
          category_name_of_def py_in_def splitext_root_def py_print_def empty_world_def Let_def
        exceeds_background_def yolo_box_def float_eval
          all_classes_converter_def ex_converter_def ex_env_def ex_data_def ex_image_def
          ex_annotations_def)
  from s n coco_to_yolo_format_no_classes [OF t] p show ?thesis by simp
qed

lemma process_test_split_unbound:
  assumes "test_only_target_classes s" and "annotation_file e file = None"
  shows "process_test_split s e ty file w =
           (Some UnboundLocalError, py_print w (TestAnnotationNotFound file))"
  using assms by (simp add: process_test_split_def)

text \<open>
  C7 (the code departs from the claim). With \<^verbatim>\<open>test_only_target_classes\<close> set and no
  annotation file for the test split, the condition is printed, and the loop over
  \<^verbatim>\<open>test_images_to_extract\<close>, which no assignment has bound, raises UnboundLocalError:
  the run ends with an exception, after the train split was written, and writes no list
  for the test split.
\<close>

theorem missing_test_annotations_fatal:
  "fst (run_converter only_target_test_converter ex_env empty_world) =
     Some UnboundLocalError \<and>
   last (stdout (snd (run_converter only_target_test_converter ex_env empty_world))) =
     TestAnnotationNotFound ''coco/annotations/instances_test2017.json'' \<and>
   map fst (list_files (snd (run_converter only_target_test_converter ex_env empty_world))) =
     [''new_dataset/train.txt'']"
  by (simp add: run_converter_def process_dataset_def process_annotated_split_def
        process_test_split_def select_images_def extract_images_id_def
        coco_to_yolo_format_def convert_image_def image_by_id_def category_name_of_def py_in_def
        splitext_root_def py_print_def empty_world_def Let_def
        exceeds_background_def yolo_box_def float_eval
        only_target_test_converter_def ex_converter_def ex_env_def ex_data_def ex_image_def
        ex_annotations_def)

lemma copy_test_images_record:
  "fst (copy_test_images s filenames (images_record, w)) =
     images_record @
     map (\<lambda>filename. path_join (output_dir s) [''test'', ''images'', filename]) filenames"
  by (induction filenames arbitrary: images_record w) (simp_all add: Let_def)

lemma convert_image_record:
  "convert_image s i img d dir ty bg (images_record, labels_record, w) = (r, ir', lr', w') \<Longrightarrow>
     ir' = images_record @ [path_join ty [''images'', img_file_name img]]"
  by (auto simp: convert_image_def Let_def split: sum.splits)

lemma convert_annotations_record:
  "convert_annotations s ids d dir ty bg (images_record, labels_record, w) = (None, ir', lr', w') \<Longrightarrow>
     ir' = images_record @
       map (\<lambda>img. path_join ty [''images'', img_file_name img])
         (List.map_filter (image_by_id d) ids)"
proof (induction ids arbitrary: images_record labels_record w)
  case Nil
  then show ?case by (simp add: List.map_filter_simps)
next
  case (Cons i ids)
  show ?case
  proof (cases "image_by_id d i")
    case None
    with Cons show ?thesis by (simp add: List.map_filter_simps)
  next
    case (Some img)
    obtain r ir1 lr1 w1 where
      c: "convert_image s i img d dir ty bg (images_record, labels_record, w) = (r, ir1, lr1, w1)"
      by (cases "convert_image s i img d dir ty bg (images_record, labels_record, w)") auto
    from convert_image_record [OF c]
    have ir1: "ir1 = images_record @ [path_join ty [''images'', img_file_name img]]" .
    from Cons.prems Some c have r: "r = None"
      and rest: "convert_annotations s ids d dir ty bg (ir1, lr1, w1) = (None, ir', lr', w')"
      by (auto split: option.splits)
    from Cons.IH [OF rest] ir1 Some show ?thesis
      by (simp add: List.map_filter_simps)
  qed
qed

text \<open>
  C8 (the code departs from the claim). The list of the test split holds the paths
  prefixed with the output directory (\<^verbatim>\<open>new_dataset/test/images/t1.jpg\<close>), where the
  lists of the train and valid splits hold paths relative to it
  (\<^verbatim>\<open>train/images/a.jpg\<close>).
\<close>

theorem test_manifest_not_output_relative:
  "list_files (snd (process_dataset ex_converter ex_env ''test''
       (coco_annotation_test ex_converter) (coco_image_dir_test ex_converter) None empty_world)) =
     [(''new_dataset/test.txt'',
       ''new_dataset/test/images/t1.jpg'' @ [CHR 0x0A] @ ''new_dataset/test/images/t2.jpg'')] \<and>
   list_files (snd (process_dataset no_background_converter ex_env ''train''
       (coco_annotation_train no_background_converter)
       (coco_image_dir_train no_background_converter) None empty_world)) =
     [(''new_dataset/train.txt'', ''train/images/a.jpg'')]"
  by (simp add: process_dataset_def process_annotated_split_def
        process_test_split_def sample_if_requested_def select_images_def extract_images_id_def
        coco_to_yolo_format_def convert_image_def image_by_id_def category_name_of_def py_in_def
        splitext_root_def py_print_def empty_world_def Let_def
        exceeds_background_def yolo_box_def float_eval
        no_background_converter_def ex_converter_def ex_env_def ex_data_def ex_image_def
        ex_annotations_def)

end
